theory Spec2Isabelle
  imports Main "HOL-Library.Word"
begin

section \<open>Data model of the pairing package\<close>

text \<open>
  A Go byte slice is a list of bytes; the nil slice and the empty slice are both the empty
  list (the code only ever passes them on or takes their length).
\<close>

type_synonym byte = "8 word"
type_synonym bytes = "byte list"

text \<open>
  The server mode is an integer type in the source (it is printed with \<open>%d\<close>); the two
  named constants and every other value are kept apart by constructor.
\<close>

datatype Mode = Receiving | Sending | UnrecognisedMode int

text \<open>
  Paths are strings. \<open>filepath.Join\<close> is kept symbolic, so no cleaning rule of the
  standard library is assumed.
\<close>

datatype fpath = Path string | Join fpath string

datatype endpoint =
    pairingReceiveAccount
  | pairingChallenge
  | pairingSendAccount
  | pairingSyncDeviceReceive
  | pairingSyncDeviceSend

text \<open>
  Every error value the package builds itself has a constructor; \<open>ExternalError\<close> is an
  error returned by a collaborator (crypto, protobuf, keystore, database, operating system,
  HTTP transport, sync handler) and handed on unchanged; \<open>NilDereference\<close> is the
  run-time panic of dereferencing a nil pointer or calling a method of a nil interface.
\<close>

datatype error =
    ExternalError string
  | InvalidAccountKeyFile error
  | FailedToReadKeyFile error
  | InvalidAddressLength string
  | CannotTraverseKeyStore error
  | KeyStorePathEmpty
  | NoKnownKeyUID
  | NoKnownKeyUIDLoadingRaw
  | NoKnownMultiaccountStoringRaw
  | StatusNotOK string
  | UnrecognisedServerMode Mode
  | FailedToAppendCert
  | NilDereference

record EncryptionPayload =
  plain :: bytes
  encrypted :: bytes
  locked :: bool

text \<open>
  \<open>multiaccounts.Account\<close>: only the key UID is read by this package; the name stands
  for the fields that travel with it unread. The logger fields of the structs are left out.
\<close>

record Account =
  KeyUID :: string
  AccountName :: string

record pb_MultiAccount =
  pb_KeyUID :: string
  pb_Name :: string

record LocalPairingPayload_Key =
  Name :: string
  Data :: bytes

record LocalPairingPayload =
  Keys :: "LocalPairingPayload_Key list"
  Multiaccount :: "pb_MultiAccount option"
  Password :: string

text \<open>
  \<open>AccountPayload.keys\<close> is a Go map. A nil map and an empty map behave alike here: the
  only write is guarded by \<open>make\<close>.
\<close>

record AccountPayload =
  keys :: "string \<rightharpoonup> bytes"
  multiaccount :: "Account option"
  password :: string

record EncryptedKeyJSONV3 =
  Address :: string

record Key =
  PrivateKey :: bytes
  ExtendedKey :: bytes

text \<open>One call of the walk function by \<open>filepath.Walk\<close>.\<close>

record visit =
  vpath :: string
  vdir :: string
  vname :: string
  visDir :: bool
  verr :: "error option"

record request =
  req_method :: string
  req_path :: endpoint
  req_body :: bytes
  req_challenge :: "string option"

text \<open>\<open>Body\<close> is what reading the whole body returns: the bytes read and the error, if any.\<close>

record response =
  StatusCode :: int
  Status :: string
  Body :: "bytes \<times> error option"

datatype EventType =
  EventTransferError | EventTransferSuccess | EventProcessError | EventProcessSuccess

datatype Action = ActionPairingAccount | ActionSyncDevice

record Event =
  ev_Type :: EventType
  ev_Error :: "error option"
  ev_Action :: Action

text \<open>The mutating calls the package issues to the operating system, the account
  database and the sync handler. A call is recorded when it is made, whatever it returns.\<close>

datatype effect =
    MkdirAllCall fpath
  | WriteFileCall fpath bytes
  | SaveAccountCall Account
  | HandleRawMessageCall Account string string bytes

subsection \<open>Collaborators\<close>

text \<open>
  Everything the package calls and does not define: library functions and functions of
  the repository that live in other packages. They are parameters of the model.
  \<^item> \<open>common_Encrypt plaintext key n\<close>: \<open>common.Encrypt\<close> with the \<open>n\<close>-th draw from
    \<open>rand.Reader\<close>.
  \<^item> \<open>json_Unmarshal_key\<close>: \<open>json.Unmarshal\<close> into a pointer to a key record; \<open>None\<close> is
    the nil pointer that the JSON value \<open>null\<close> leaves.
  \<^item> \<open>range_validateKeys\<close>, \<open>range_storeKeys\<close>, \<open>range_accountKeysToProtobuf\<close>: the order
    in which the \<open>range\<close> loop of that function visits the entries of the map.
  \<^item> \<open>filepath_Walk root\<close>: the calls \<open>filepath.Walk\<close> makes while the walk function
    returns nil (the walk function of this package never returns \<open>SkipDir\<close>).
  \<^item> \<open>http_Do n r\<close>: the outcome of sending \<open>r\<close> as the \<open>n\<close>-th request.
  \<^item> \<open>getServerCert\<close>, \<open>verifyCert\<close> and the four fields after them: the steps of the
    trust bootstrap in \<open>NewPairingClient\<close>.
\<close>

record env =
  common_Encrypt :: "bytes \<Rightarrow> bytes \<Rightarrow> nat \<Rightarrow> error + bytes"
  common_Decrypt :: "bytes \<Rightarrow> bytes \<Rightarrow> error + bytes"
  proto_Marshal :: "LocalPairingPayload \<Rightarrow> error + bytes"
  proto_Unmarshal :: "bytes \<Rightarrow> error + LocalPairingPayload"
  Account_ToProtobuf :: "Account option \<Rightarrow> error + pb_MultiAccount option"
  Account_FromProtobuf :: "pb_MultiAccount option \<Rightarrow> error + Account"
  json_Unmarshal_key :: "bytes \<Rightarrow> error + EncryptedKeyJSONV3 option"
  keystore_DecryptKey :: "bytes \<Rightarrow> string \<Rightarrow> error + Key"
  ValidateKeystoreExtendedKey :: "Key \<Rightarrow> error option"
  range_validateKeys :: "(string \<rightharpoonup> bytes) \<Rightarrow> (string \<times> bytes) list"
  range_storeKeys :: "(string \<rightharpoonup> bytes) \<Rightarrow> (string \<times> bytes) list"
  range_accountKeysToProtobuf :: "(string \<rightharpoonup> bytes) \<Rightarrow> (string \<times> bytes) list"
  filepath_Walk :: "string \<Rightarrow> visit list"
  ioutil_ReadFile :: "string \<Rightarrow> error + bytes"
  os_MkdirAll :: "fpath \<Rightarrow> error option"
  ioutil_WriteFile :: "fpath \<Rightarrow> bytes \<Rightarrow> error option"
  PrepareRawMessage :: "string \<Rightarrow> error + bytes"
  HandleRawMessage :: "Account \<Rightarrow> string \<Rightarrow> string \<Rightarrow> bytes \<Rightarrow> error option"
  http_NewRequest :: "endpoint \<Rightarrow> error option"
  http_Do :: "nat \<Rightarrow> request \<Rightarrow> error + response"
  base58_Encode :: "bytes \<Rightarrow> string"
  getServerCert :: "string \<Rightarrow> error + bytes"
  verifyCert :: "bytes \<Rightarrow> bytes \<Rightarrow> error option"
  pem_EncodeToMemory :: "bytes \<Rightarrow> bytes"
  x509_SystemCertPool :: "error option"
  AppendCertsFromPEM :: "bytes \<Rightarrow> bool"
  cookiejar_New :: "error option"

text \<open>\<open>multiaccounts.Database\<close>, reached through a pointer that may be nil.\<close>

record Database =
  GetAccount :: "string \<Rightarrow> Account option \<times> error option"
  SaveAccount :: "Account \<Rightarrow> error option"

subsection \<open>Program state\<close>

text \<open>
  \<open>EncryptionPayload\<close> values live in a store and are reached by address, as the
  pointers \<open>toSend\<close> and \<open>received\<close> reach them in the source; \<open>fresh\<close> is the next
  address \<open>new\<close> hands out. \<open>accountPayload\<close> is the one \<open>AccountPayload\<close> that the
  marshaller and both repositories of a client point to; \<open>rawPayload\<close> is the
  \<open>payload\<close> field of the raw-message repository. \<open>effects\<close>, \<open>requests\<close> and
  \<open>signals\<close> record, oldest first, what the program did to the outside.
\<close>

type_synonym addr = nat

record state =
  cells :: "addr \<Rightarrow> EncryptionPayload"
  fresh :: addr
  accountPayload :: AccountPayload
  rawPayload :: bytes
  rand_pos :: nat
  effects :: "effect list"
  requests :: "request list"
  signals :: "Event list"

record PayloadEncryptionManager =
  aesKey :: bytes
  toSend :: addr
  received :: addr

section \<open>PayloadEncryptionManager\<close>

definition new_EncryptionPayload :: "state \<Rightarrow> addr \<times> state" where
  "new_EncryptionPayload s =
     (fresh s,
      s\<lparr>cells := (cells s)(fresh s := \<lparr>plain = [], encrypted = [], locked = False\<rparr>),
        fresh := Suc (fresh s)\<rparr>)"

definition NewPayloadEncryptionManager ::
  "bytes \<Rightarrow> state \<Rightarrow> (error + PayloadEncryptionManager) \<times> state" where
  "NewPayloadEncryptionManager key s =
     (let (a1, s1) = new_EncryptionPayload s;
          (a2, s2) = new_EncryptionPayload s1
      in (Inr \<lparr>aesKey = key, toSend = a1, received = a2\<rparr>, s2))"

definition EncryptPlain ::
  "env \<Rightarrow> PayloadEncryptionManager \<Rightarrow> bytes \<Rightarrow> state \<Rightarrow> (error + bytes) \<times> state" where
  "EncryptPlain E pem plaintext s =
     (common_Encrypt E plaintext (aesKey pem) (rand_pos s), s\<lparr>rand_pos := Suc (rand_pos s)\<rparr>)"

definition Encrypt ::
  "env \<Rightarrow> PayloadEncryptionManager \<Rightarrow> bytes \<Rightarrow> state \<Rightarrow> error option \<times> state" where
  "Encrypt E pem data s =
     (let s1 = s\<lparr>rand_pos := Suc (rand_pos s)\<rparr> in
      case common_Encrypt E data (aesKey pem) (rand_pos s) of
        Inl e \<Rightarrow> (Some e, s1)
      | Inr ep \<Rightarrow>
          (None, s1\<lparr>cells := (cells s1)
             (toSend pem := (cells s1 (toSend pem))\<lparr>plain := data, encrypted := ep\<rparr>)\<rparr>))"

definition Decrypt ::
  "env \<Rightarrow> PayloadEncryptionManager \<Rightarrow> bytes \<Rightarrow> state \<Rightarrow> error option \<times> state" where
  "Decrypt E pem data s =
     (case common_Decrypt E data (aesKey pem) of
        Inl e \<Rightarrow> (Some e, s)
      | Inr pd \<Rightarrow>
          (None, s\<lparr>cells := (cells s)
             (received pem := (cells s (received pem))\<lparr>encrypted := data, plain := pd\<rparr>)\<rparr>))"

definition ToSend :: "PayloadEncryptionManager \<Rightarrow> state \<Rightarrow> bytes" where
  "ToSend pem s =
     (if locked (cells s (toSend pem)) then [] else encrypted (cells s (toSend pem)))"

definition Received :: "PayloadEncryptionManager \<Rightarrow> state \<Rightarrow> bytes" where
  "Received pem s =
     (if locked (cells s (toSend pem)) then [] else plain (cells s (received pem)))"

definition ResetPayload ::
  "PayloadEncryptionManager \<Rightarrow> state \<Rightarrow> PayloadEncryptionManager \<times> state" where
  "ResetPayload pem s =
     (let (a1, s1) = new_EncryptionPayload s;
          (a2, s2) = new_EncryptionPayload s1
      in (pem\<lparr>toSend := a1, received := a2\<rparr>, s2))"

definition lock :: "addr \<Rightarrow> state \<Rightarrow> state" where
  "lock a s = s\<lparr>cells := (cells s)(a := (cells s a)\<lparr>locked := True\<rparr>)\<rparr>"

definition LockPayload :: "PayloadEncryptionManager \<Rightarrow> state \<Rightarrow> state" where
  "LockPayload pem s = lock (received pem) (lock (toSend pem) s)"

section \<open>AccountPayload and its marshaller\<close>

definition AccountPayload_Reset :: "AccountPayload \<Rightarrow> AccountPayload" where
  "AccountPayload_Reset ap = \<lparr>keys = Map.empty, multiaccount = None, password = []\<rparr>"

definition accountKeysToProtobuf :: "env \<Rightarrow> AccountPayload \<Rightarrow> LocalPairingPayload_Key list" where
  "accountKeysToProtobuf E ap =
     map (\<lambda>(name, data). \<lparr>Name = name, Data = data\<rparr>) (range_accountKeysToProtobuf E (keys ap))"

text \<open>
  \<open>ToProtobuf\<close> and \<open>FromProtobuf\<close> of the account record are not part of this package; a
  panic inside them (on a nil receiver or argument) is the \<open>Inl\<close> result.
\<close>

definition MarshalToProtobuf :: "env \<Rightarrow> AccountPayload \<Rightarrow> error + bytes" where
  "MarshalToProtobuf E ap =
     (let ks = accountKeysToProtobuf E ap in
      case Account_ToProtobuf E (multiaccount ap) of
        Inl e \<Rightarrow> Inl e
      | Inr ma \<Rightarrow> proto_Marshal E \<lparr>Keys = ks, Multiaccount = ma, Password = password ap\<rparr>)"

fun accountKeysFromProtobuf_loop ::
  "LocalPairingPayload_Key list \<Rightarrow> (string \<rightharpoonup> bytes) \<Rightarrow> (string \<rightharpoonup> bytes)" where
  "accountKeysFromProtobuf_loop [] m = m"
| "accountKeysFromProtobuf_loop (key # rest) m =
     accountKeysFromProtobuf_loop rest (m(Name key \<mapsto> Data key))"

definition accountKeysFromProtobuf ::
  "LocalPairingPayload_Key list \<Rightarrow> AccountPayload \<Rightarrow> AccountPayload" where
  "accountKeysFromProtobuf pbKeys ap = ap\<lparr>keys := accountKeysFromProtobuf_loop pbKeys (keys ap)\<rparr>"

definition multiaccountFromProtobuf ::
  "env \<Rightarrow> pb_MultiAccount option \<Rightarrow> AccountPayload \<Rightarrow> error option \<times> AccountPayload" where
  "multiaccountFromProtobuf E pbMultiAccount ap =
     (case Account_FromProtobuf E pbMultiAccount of
        Inl e \<Rightarrow> (Some e, ap\<lparr>multiaccount := Some \<lparr>KeyUID = [], AccountName = []\<rparr>\<rparr>)
      | Inr a \<Rightarrow> (None, ap\<lparr>multiaccount := Some a\<rparr>))"

definition UnmarshalProtobuf ::
  "env \<Rightarrow> bytes \<Rightarrow> AccountPayload \<Rightarrow> error option \<times> AccountPayload" where
  "UnmarshalProtobuf E data ap =
     (case proto_Unmarshal E data of
        Inl e \<Rightarrow> (Some e, ap)
      | Inr pb \<Rightarrow>
          (case multiaccountFromProtobuf E (Multiaccount pb) (accountKeysFromProtobuf (Keys pb) ap) of
             (Some e, ap2) \<Rightarrow> (Some e, ap2)
           | (None, ap2) \<Rightarrow> (None, ap2\<lparr>password := Password pb\<rparr>)))"

section \<open>AccountPayloadRepository\<close>

record PayloadSourceConfig =
  cfg_KeystorePath :: string
  cfg_KeyUID :: string
  cfg_Password :: string

text \<open>The embedded \<open>*PayloadSourceConfig\<close> is a pointer, so it may be nil.\<close>

record AccountPayloadManagerConfig =
  cfg_DB :: "Database option"
  cfg_source :: "PayloadSourceConfig option"

text \<open>The \<open>*AccountPayload\<close> of the repository is \<open>accountPayload\<close> of the state.\<close>

record AccountPayloadRepository =
  multiaccountsDB :: "Database option"
  keystorePath :: string
  keyUID :: string

definition NewAccountPayloadRepository ::
  "AccountPayloadManagerConfig option \<Rightarrow> state \<Rightarrow> (error + AccountPayloadRepository) \<times> state" where
  "NewAccountPayloadRepository config s =
     (case config of
        None \<Rightarrow> (Inr \<lparr>multiaccountsDB = None, keystorePath = [], keyUID = []\<rparr>, s)
      | Some cfg \<Rightarrow>
          (case cfg_source cfg of
             None \<Rightarrow> (Inl NilDereference, s)
           | Some src \<Rightarrow>
               (Inr \<lparr>multiaccountsDB = cfg_DB cfg, keystorePath = cfg_KeystorePath src,
                     keyUID = cfg_KeyUID src\<rparr>,
                s\<lparr>accountPayload := (accountPayload s)\<lparr>password := cfg_Password src\<rparr>\<rparr>)))"

text \<open>
  The walk function of \<open>loadKeys\<close>, applied to one visit; the map is \<open>apr.keys\<close>. The
  comparison \<open>filepath.Dir(path) != keyStorePath\<close> is on strings.
\<close>

definition fileWalker ::
  "env \<Rightarrow> string \<Rightarrow> visit \<Rightarrow> (string \<rightharpoonup> bytes) \<Rightarrow> error option \<times> (string \<rightharpoonup> bytes)" where
  "fileWalker E keyStorePath v m =
     (case verr v of
        Some e \<Rightarrow> (Some e, m)
      | None \<Rightarrow>
          if visDir v \<or> vdir v \<noteq> keyStorePath then (None, m)
          else (case ioutil_ReadFile E (vpath v) of
                  Inl e \<Rightarrow> (Some (InvalidAccountKeyFile e), m)
                | Inr rawKeyFile \<Rightarrow>
                    (case json_Unmarshal_key E rawKeyFile of
                       Inl e \<Rightarrow> (Some (FailedToReadKeyFile e), m)
                     | Inr None \<Rightarrow> (Some NilDereference, m)
                     | Inr (Some accountKey) \<Rightarrow>
                         if length (Address accountKey) \<noteq> 40
                         then (Some (InvalidAddressLength (Address accountKey)), m)
                         else (None, m(vname v \<mapsto> rawKeyFile)))))"

fun walk_visits ::
  "env \<Rightarrow> string \<Rightarrow> visit list \<Rightarrow> (string \<rightharpoonup> bytes) \<Rightarrow> error option \<times> (string \<rightharpoonup> bytes)" where
  "walk_visits E keyStorePath [] m = (None, m)"
| "walk_visits E keyStorePath (v # vs) m =
     (case fileWalker E keyStorePath v m of
        (Some e, m') \<Rightarrow> (Some e, m')
      | (None, m') \<Rightarrow> walk_visits E keyStorePath vs m')"

text \<open>A panic is not an error value, so \<open>fmt.Errorf\<close> does not wrap it.\<close>

definition loadKeys :: "env \<Rightarrow> string \<Rightarrow> AccountPayload \<Rightarrow> error option \<times> AccountPayload" where
  "loadKeys E keyStorePath ap =
     (case walk_visits E keyStorePath (filepath_Walk E keyStorePath) Map.empty of
        (Some e, m) \<Rightarrow>
          (Some (if e = NilDereference then NilDereference else CannotTraverseKeyStore e),
           ap\<lparr>keys := m\<rparr>)
      | (None, m) \<Rightarrow> (None, ap\<lparr>keys := m\<rparr>))"

fun validateKeys_loop :: "env \<Rightarrow> string \<Rightarrow> (string \<times> bytes) list \<Rightarrow> error option" where
  "validateKeys_loop E pw [] = None"
| "validateKeys_loop E pw ((name, key) # rest) =
     (case keystore_DecryptKey E key pw of
        Inl e \<Rightarrow> Some e
      | Inr k \<Rightarrow>
          (case ValidateKeystoreExtendedKey E k of
             Some e \<Rightarrow> Some e
           | None \<Rightarrow> validateKeys_loop E pw rest))"

definition validateKeys :: "env \<Rightarrow> AccountPayload \<Rightarrow> string \<Rightarrow> error option" where
  "validateKeys E ap pw = validateKeys_loop E pw (range_validateKeys E (keys ap))"

text \<open>
  A nil \<open>multiaccountsDB\<close> makes the database methods panic (they dereference their
  receiver). The result of \<open>GetAccount\<close> is assigned before the error is looked at.
\<close>

definition LoadFromSource ::
  "env \<Rightarrow> AccountPayloadRepository \<Rightarrow> state \<Rightarrow> error option \<times> state" where
  "LoadFromSource E apr s =
     (case loadKeys E (keystorePath apr) (accountPayload s) of
        (Some e, ap1) \<Rightarrow> (Some e, s\<lparr>accountPayload := ap1\<rparr>)
      | (None, ap1) \<Rightarrow>
          (case validateKeys E ap1 (password ap1) of
             Some e \<Rightarrow> (Some e, s\<lparr>accountPayload := ap1\<rparr>)
           | None \<Rightarrow>
               (case multiaccountsDB apr of
                  None \<Rightarrow> (Some NilDereference, s\<lparr>accountPayload := ap1\<rparr>)
                | Some db \<Rightarrow>
                    (case GetAccount db (keyUID apr) of
                       (acc, err) \<Rightarrow> (err, s\<lparr>accountPayload := ap1\<lparr>multiaccount := acc\<rparr>\<rparr>)))))"

text \<open>The second result of \<open>filepath.Split\<close>: what follows the last separator.\<close>

definition lastDir :: "string \<Rightarrow> string" where
  "lastDir p = rev (takeWhile (\<lambda>c. c \<noteq> CHR ''/'') (rev p))"

fun storeKeys_loop ::
  "env \<Rightarrow> fpath \<Rightarrow> (string \<times> bytes) list \<Rightarrow> state \<Rightarrow> error option \<times> state" where
  "storeKeys_loop E dir [] s = (None, s)"
| "storeKeys_loop E dir ((name, data) # rest) s =
     (case json_Unmarshal_key E data of
        Inl e \<Rightarrow> (Some (FailedToReadKeyFile e), s)
      | Inr None \<Rightarrow> (Some NilDereference, s)
      | Inr (Some accountKey) \<Rightarrow>
          if length (Address accountKey) \<noteq> 40
          then (Some (InvalidAddressLength (Address accountKey)), s)
          else (let s1 = s\<lparr>effects := effects s @ [WriteFileCall (Join dir name) data]\<rparr> in
                case ioutil_WriteFile E (Join dir name) data of
                  Some e \<Rightarrow> (Some e, s1)
                | None \<Rightarrow> storeKeys_loop E dir rest s1))"

definition storeKeys :: "env \<Rightarrow> string \<Rightarrow> state \<Rightarrow> error option \<times> state" where
  "storeKeys E keyStorePath s =
     (if keyStorePath = [] then (Some KeyStorePathEmpty, s)
      else if lastDir keyStorePath = ''keystore'' then
        (case multiaccount (accountPayload s) of
           None \<Rightarrow> (Some NoKnownKeyUID, s)
         | Some a \<Rightarrow>
             if KeyUID a = [] then (Some NoKnownKeyUID, s)
             else (let dir = Join (Path keyStorePath) (KeyUID a);
                       s1 = s\<lparr>effects := effects s @ [MkdirAllCall dir]\<rparr> in
                   case os_MkdirAll E dir of
                     Some e \<Rightarrow> (Some e, s1)
                   | None \<Rightarrow>
                       storeKeys_loop E dir (range_storeKeys E (keys (accountPayload s1))) s1))
      else storeKeys_loop E (Path keyStorePath) (range_storeKeys E (keys (accountPayload s))) s)"

definition storeMultiAccount :: "AccountPayloadRepository \<Rightarrow> state \<Rightarrow> error option \<times> state" where
  "storeMultiAccount apr s =
     (case multiaccount (accountPayload s) of
        None \<Rightarrow> (Some NilDereference, s)
      | Some a \<Rightarrow>
          (case multiaccountsDB apr of
             None \<Rightarrow> (Some NilDereference, s)
           | Some db \<Rightarrow> (SaveAccount db a, s\<lparr>effects := effects s @ [SaveAccountCall a]\<rparr>)))"

definition StoreToSource ::
  "env \<Rightarrow> AccountPayloadRepository \<Rightarrow> state \<Rightarrow> error option \<times> state" where
  "StoreToSource E apr s =
     (case validateKeys E (accountPayload s) (password (accountPayload s)) of
        Some e \<Rightarrow> (Some e, s)
      | None \<Rightarrow>
          (case storeKeys E (keystorePath apr) s of
             (Some e, s1) \<Rightarrow> (Some e, s1)
           | (None, s1) \<Rightarrow> storeMultiAccount apr s1))"

section \<open>AccountPayloadManager\<close>

record AccountPayloadManager =
  apm_pem :: PayloadEncryptionManager
  payloadRepository :: AccountPayloadRepository

definition NewAccountPayloadManager ::
  "bytes \<Rightarrow> AccountPayloadManagerConfig option \<Rightarrow> state \<Rightarrow>
   (error + AccountPayloadManager) \<times> state" where
  "NewAccountPayloadManager key config s =
     (case NewPayloadEncryptionManager key s of
        (Inl e, s1) \<Rightarrow> (Inl e, s1)
      | (Inr pem, s1) \<Rightarrow>
          (let s2 = s1\<lparr>accountPayload := \<lparr>keys = Map.empty, multiaccount = None, password = []\<rparr>\<rparr> in
           case NewAccountPayloadRepository config s2 of
             (Inl e, s3) \<Rightarrow> (Inl e, s3)
           | (Inr apr, s3) \<Rightarrow> (Inr \<lparr>apm_pem = pem, payloadRepository = apr\<rparr>, s3)))"

definition APM_Mount :: "env \<Rightarrow> AccountPayloadManager \<Rightarrow> state \<Rightarrow> error option \<times> state" where
  "APM_Mount E apm s =
     (case LoadFromSource E (payloadRepository apm) s of
        (Some e, s1) \<Rightarrow> (Some e, s1)
      | (None, s1) \<Rightarrow>
          (case MarshalToProtobuf E (accountPayload s1) of
             Inl e \<Rightarrow> (Some e, s1)
           | Inr pb \<Rightarrow> Encrypt E (apm_pem apm) pb s1))"

definition APM_Receive ::
  "env \<Rightarrow> AccountPayloadManager \<Rightarrow> bytes \<Rightarrow> state \<Rightarrow> error option \<times> state" where
  "APM_Receive E apm data s =
     (case Decrypt E (apm_pem apm) data s of
        (Some e, s1) \<Rightarrow> (Some e, s1)
      | (None, s1) \<Rightarrow>
          (case UnmarshalProtobuf E (Received (apm_pem apm) s1) (accountPayload s1) of
             (Some e, ap) \<Rightarrow> (Some e, s1\<lparr>accountPayload := ap\<rparr>)
           | (None, ap) \<Rightarrow> StoreToSource E (payloadRepository apm) (s1\<lparr>accountPayload := ap\<rparr>)))"

definition APM_ResetPayload ::
  "AccountPayloadManager \<Rightarrow> state \<Rightarrow> AccountPayloadManager \<times> state" where
  "APM_ResetPayload apm s =
     (let s1 = s\<lparr>accountPayload := AccountPayload_Reset (accountPayload s)\<rparr>;
          (pem, s2) = ResetPayload (apm_pem apm) s1
      in (apm\<lparr>apm_pem := pem\<rparr>, s2))"

section \<open>RawMessagePayloadManager and its repository\<close>

text \<open>
  The repository's \<open>payload\<close> field is \<open>rawPayload\<close> of the state, its
  \<open>accountPayload\<close> pointer is \<open>accountPayload\<close> of the state (the constructor of the
  client passes the account manager's payload, which is never nil), and its handler is
  the pair \<open>PrepareRawMessage\<close>, \<open>HandleRawMessage\<close> of the collaborators.
\<close>

record RawMessageRepository =
  rm_keystorePath :: string

record RawMessagePayloadManager =
  rm_pem :: PayloadEncryptionManager
  rm_payloadRepository :: RawMessageRepository

definition NewRawMessageRepository :: "string \<Rightarrow> state \<Rightarrow> RawMessageRepository \<times> state" where
  "NewRawMessageRepository ksp s = (\<lparr>rm_keystorePath = ksp\<rparr>, s\<lparr>rawPayload := []\<rparr>)"

definition NewRawMessagePayloadManager ::
  "bytes \<Rightarrow> string \<Rightarrow> state \<Rightarrow> (error + RawMessagePayloadManager) \<times> state" where
  "NewRawMessagePayloadManager key ksp s =
     (case NewPayloadEncryptionManager key s of
        (Inl e, s1) \<Rightarrow> (Inl e, s1)
      | (Inr pem, s1) \<Rightarrow>
          (let (repo, s2) = NewRawMessageRepository ksp s1
           in (Inr \<lparr>rm_pem = pem, rm_payloadRepository = repo\<rparr>, s2)))"

definition Raw_LoadFromSource :: "env \<Rightarrow> state \<Rightarrow> error option \<times> state" where
  "Raw_LoadFromSource E s =
     (case multiaccount (accountPayload s) of
        None \<Rightarrow> (Some NoKnownKeyUIDLoadingRaw, s)
      | Some account \<Rightarrow>
          if KeyUID account = [] then (Some NoKnownKeyUIDLoadingRaw, s)
          else (case PrepareRawMessage E (KeyUID account) of
                  Inl e \<Rightarrow> (Some e, s)
                | Inr payload \<Rightarrow> (None, s\<lparr>rawPayload := payload\<rparr>)))"

definition Raw_StoreToSource :: "env \<Rightarrow> RawMessageRepository \<Rightarrow> state \<Rightarrow> error option \<times> state" where
  "Raw_StoreToSource E r s =
     (case multiaccount (accountPayload s) of
        None \<Rightarrow> (Some NoKnownMultiaccountStoringRaw, s)
      | Some a \<Rightarrow>
          (HandleRawMessage E a (password (accountPayload s)) (rm_keystorePath r) (rawPayload s),
           s\<lparr>effects := effects s @
               [HandleRawMessageCall a (password (accountPayload s)) (rm_keystorePath r)
                  (rawPayload s)]\<rparr>))"

definition RMPM_Mount :: "env \<Rightarrow> RawMessagePayloadManager \<Rightarrow> state \<Rightarrow> error option \<times> state" where
  "RMPM_Mount E r s =
     (case Raw_LoadFromSource E s of
        (Some e, s1) \<Rightarrow> (Some e, s1)
      | (None, s1) \<Rightarrow> Encrypt E (rm_pem r) (rawPayload s1) s1)"

definition RMPM_Receive ::
  "env \<Rightarrow> RawMessagePayloadManager \<Rightarrow> bytes \<Rightarrow> state \<Rightarrow> error option \<times> state" where
  "RMPM_Receive E r data s =
     (case Decrypt E (rm_pem r) data s of
        (Some e, s1) \<Rightarrow> (Some e, s1)
      | (None, s1) \<Rightarrow>
          Raw_StoreToSource E (rm_payloadRepository r) (s1\<lparr>rawPayload := Received (rm_pem r) s1\<rparr>))"

definition RMPM_ResetPayload ::
  "RawMessagePayloadManager \<Rightarrow> state \<Rightarrow> RawMessagePayloadManager \<times> state" where
  "RMPM_ResetPayload r s =
     (let (pem, s1) = ResetPayload (rm_pem r) (s\<lparr>rawPayload := []\<rparr>)
      in (r\<lparr>rm_pem := pem\<rparr>, s1))"

section \<open>Client\<close>

text \<open>\<open>cp_URL\<close> is the result of \<open>ConnectionParams.URL()\<close>.\<close>

record ConnectionParams =
  cp_URL :: "error + string"
  cp_publicKey :: bytes
  cp_aesKey :: bytes
  cp_serverMode :: Mode

text \<open>
  \<open>PayloadManager\<close> is the embedded interface value, always the account manager. The
  HTTP client itself is the collaborator \<open>http_Do\<close>.
\<close>

record Client =
  PayloadManager :: AccountPayloadManager
  rawMessagePayloadManager :: RawMessagePayloadManager
  baseAddress :: string
  baseAddress_Path :: "endpoint option"
  certPEM :: bytes
  serverPK :: bytes
  serverMode :: Mode
  serverCert :: bytes
  serverChallenge :: "bytes option"

definition NewPairingClient ::
  "env \<Rightarrow> ConnectionParams \<Rightarrow> AccountPayloadManagerConfig option \<Rightarrow> state \<Rightarrow>
   (error + Client) \<times> state" where
  "NewPairingClient E c config s =
     (case cp_URL c of
        Inl e \<Rightarrow> (Inl e, s)
      | Inr u \<Rightarrow>
     (case getServerCert E u of
        Inl e \<Rightarrow> (Inl e, s)
      | Inr cert \<Rightarrow>
     (case verifyCert E cert (cp_publicKey c) of
        Some e \<Rightarrow> (Inl e, s)
      | None \<Rightarrow>
     (case x509_SystemCertPool E of
        Some e \<Rightarrow> (Inl e, s)
      | None \<Rightarrow>
     if \<not> AppendCertsFromPEM E (pem_EncodeToMemory E cert) then (Inl FailedToAppendCert, s)
     else
     (case cookiejar_New E of
        Some e \<Rightarrow> (Inl e, s)
      | None \<Rightarrow>
     (case NewAccountPayloadManager (cp_aesKey c) config s of
        (Inl e, s1) \<Rightarrow> (Inl e, s1)
      | (Inr pm, s1) \<Rightarrow>
     (case config of
        None \<Rightarrow> (Inl NilDereference, s1)
      | Some cfg \<Rightarrow>
     (case cfg_source cfg of
        None \<Rightarrow> (Inl NilDereference, s1)
      | Some src \<Rightarrow>
     (case NewRawMessagePayloadManager (cp_aesKey c) (cfg_KeystorePath src) s1 of
        (Inl e, s2) \<Rightarrow> (Inl e, s2)
      | (Inr rmpm, s2) \<Rightarrow>
          (Inr \<lparr>PayloadManager = pm, rawMessagePayloadManager = rmpm, baseAddress = u,
                baseAddress_Path = None, certPEM = pem_EncodeToMemory E cert,
                serverPK = cp_publicKey c, serverMode = cp_serverMode c, serverCert = cert,
                serverChallenge = None\<rparr>, s2))))))))))"

definition SendLocalPairingEvent :: "Event \<Rightarrow> state \<Rightarrow> state" where
  "SendLocalPairingEvent ev s = s\<lparr>signals := signals s @ [ev]\<rparr>"

definition send_request :: "env \<Rightarrow> request \<Rightarrow> state \<Rightarrow> (error + response) \<times> state" where
  "send_request E r s = (http_Do E (length (requests s)) r, s\<lparr>requests := requests s @ [r]\<rparr>)"

text \<open>
  In both send functions the branch for a status other than 200 calls \<open>err.Error()\<close> on
  the nil error left by a successful \<open>Post\<close>: a panic.
\<close>

definition sendAccountData :: "env \<Rightarrow> Client \<Rightarrow> state \<Rightarrow> error option \<times> Client \<times> state" where
  "sendAccountData E c s =
     (case APM_Mount E (PayloadManager c) s of
        (Some e, s1) \<Rightarrow> (Some e, c, s1)
      | (None, s1) \<Rightarrow>
          (let c1 = c\<lparr>baseAddress_Path := Some pairingReceiveAccount\<rparr> in
           case send_request E
                  \<lparr>req_method = ''POST'', req_path = pairingReceiveAccount,
                   req_body = ToSend (apm_pem (PayloadManager c1)) s1, req_challenge = None\<rparr> s1 of
             (Inl err, s2) \<Rightarrow>
               (Some err, c1,
                SendLocalPairingEvent
                  \<lparr>ev_Type = EventTransferError, ev_Error = Some err,
                   ev_Action = ActionPairingAccount\<rparr> s2)
           | (Inr resp, s2) \<Rightarrow>
               if StatusCode resp \<noteq> 200 then (Some NilDereference, c1, s2)
               else (None, c1,
                     LockPayload (apm_pem (PayloadManager c1))
                       (SendLocalPairingEvent
                          \<lparr>ev_Type = EventTransferSuccess, ev_Error = None,
                           ev_Action = ActionPairingAccount\<rparr> s2))))"

definition sendSyncDeviceData :: "env \<Rightarrow> Client \<Rightarrow> state \<Rightarrow> error option \<times> Client \<times> state" where
  "sendSyncDeviceData E c s =
     (case RMPM_Mount E (rawMessagePayloadManager c) s of
        (Some e, s1) \<Rightarrow> (Some e, c, s1)
      | (None, s1) \<Rightarrow>
          (let c1 = c\<lparr>baseAddress_Path := Some pairingSyncDeviceReceive\<rparr> in
           case send_request E
                  \<lparr>req_method = ''POST'', req_path = pairingSyncDeviceReceive,
                   req_body = ToSend (rm_pem (rawMessagePayloadManager c1)) s1,
                   req_challenge = None\<rparr> s1 of
             (Inl err, s2) \<Rightarrow>
               (Some err, c1,
                SendLocalPairingEvent
                  \<lparr>ev_Type = EventTransferError, ev_Error = Some err,
                   ev_Action = ActionSyncDevice\<rparr> s2)
           | (Inr resp, s2) \<Rightarrow>
               if StatusCode resp \<noteq> 200 then (Some NilDereference, c1, s2)
               else (None, c1,
                     SendLocalPairingEvent
                       \<lparr>ev_Type = EventTransferSuccess, ev_Error = None,
                        ev_Action = ActionSyncDevice\<rparr> s2)))"

text \<open>
  The part the two receive functions share up to the body: build the request, attach the
  encrypted challenge if one is held, send, check the status, read the body. The result
  is the error to return or the payload read.
\<close>

definition fetch_payload ::
  "env \<Rightarrow> endpoint \<Rightarrow> Action \<Rightarrow> Client \<Rightarrow> state \<Rightarrow> (error + bytes) \<times> Client \<times> state" where
  "fetch_payload E path action c s =
     (let c1 = c\<lparr>baseAddress_Path := Some path\<rparr> in
      case http_NewRequest E path of
        Some e \<Rightarrow> (Inl e, c1, s)
      | None \<Rightarrow>
          (case (case serverChallenge c1 of
                   None \<Rightarrow> (Inr None, s)
                 | Some ch \<Rightarrow>
                     (case EncryptPlain E (apm_pem (PayloadManager c1)) ch s of
                        (Inl e, s1) \<Rightarrow> (Inl e, s1)
                      | (Inr ec, s1) \<Rightarrow> (Inr (Some (base58_Encode E ec)), s1))) of
             (Inl e, s1) \<Rightarrow> (Inl e, c1, s1)
           | (Inr hdr, s1) \<Rightarrow>
               (case send_request E
                       \<lparr>req_method = ''GET'', req_path = path, req_body = [],
                        req_challenge = hdr\<rparr> s1 of
                  (Inl err, s2) \<Rightarrow>
                    (Inl err, c1,
                     SendLocalPairingEvent
                       \<lparr>ev_Type = EventTransferError, ev_Error = Some err, ev_Action = action\<rparr> s2)
                | (Inr resp, s2) \<Rightarrow>
                    if StatusCode resp \<noteq> 200 then
                      (Inl (StatusNotOK (Status resp)), c1,
                       SendLocalPairingEvent
                         \<lparr>ev_Type = EventTransferError,
                          ev_Error = Some (StatusNotOK (Status resp)), ev_Action = action\<rparr> s2)
                    else
                      (case Body resp of
                         (payload, Some err) \<Rightarrow>
                           (Inl err, c1,
                            SendLocalPairingEvent
                              \<lparr>ev_Type = EventTransferError, ev_Error = Some err,
                               ev_Action = action\<rparr> s2)
                       | (payload, None) \<Rightarrow>
                           (Inr payload, c1,
                            SendLocalPairingEvent
                              \<lparr>ev_Type = EventTransferSuccess, ev_Error = None,
                               ev_Action = action\<rparr> s2)))))"

definition receiveAccountData :: "env \<Rightarrow> Client \<Rightarrow> state \<Rightarrow> error option \<times> Client \<times> state" where
  "receiveAccountData E c s =
     (case fetch_payload E pairingSendAccount ActionPairingAccount c s of
        (Inl e, c1, s1) \<Rightarrow> (Some e, c1, s1)
      | (Inr payload, c1, s1) \<Rightarrow>
          (case APM_Receive E (PayloadManager c1) payload s1 of
             (Some err, s2) \<Rightarrow>
               (Some err, c1,
                SendLocalPairingEvent
                  \<lparr>ev_Type = EventProcessError, ev_Error = Some err,
                   ev_Action = ActionPairingAccount\<rparr> s2)
           | (None, s2) \<Rightarrow>
               (None, c1,
                SendLocalPairingEvent
                  \<lparr>ev_Type = EventProcessSuccess, ev_Error = None,
                   ev_Action = ActionPairingAccount\<rparr> s2)))"

definition receiveSyncDeviceData :: "env \<Rightarrow> Client \<Rightarrow> state \<Rightarrow> error option \<times> Client \<times> state" where
  "receiveSyncDeviceData E c s =
     (case fetch_payload E pairingSyncDeviceSend ActionSyncDevice c s of
        (Inl e, c1, s1) \<Rightarrow> (Some e, c1, s1)
      | (Inr payload, c1, s1) \<Rightarrow>
          (case RMPM_Receive E (rawMessagePayloadManager c1) payload s1 of
             (Some err, s2) \<Rightarrow>
               (Some err, c1,
                SendLocalPairingEvent
                  \<lparr>ev_Type = EventProcessError, ev_Error = Some err,
                   ev_Action = ActionSyncDevice\<rparr> s2)
           | (None, s2) \<Rightarrow>
               (None, c1,
                SendLocalPairingEvent
                  \<lparr>ev_Type = EventProcessSuccess, ev_Error = None,
                   ev_Action = ActionSyncDevice\<rparr> s2)))"

text \<open>The body read is assigned to \<open>serverChallenge\<close> together with the read error.\<close>

definition getChallenge :: "env \<Rightarrow> Client \<Rightarrow> state \<Rightarrow> error option \<times> Client \<times> state" where
  "getChallenge E c s =
     (let c1 = c\<lparr>baseAddress_Path := Some pairingChallenge\<rparr> in
      case send_request E
             \<lparr>req_method = ''GET'', req_path = pairingChallenge, req_body = [],
              req_challenge = None\<rparr> s of
        (Inl err, s1) \<Rightarrow> (Some err, c1, s1)
      | (Inr resp, s1) \<Rightarrow>
          if StatusCode resp \<noteq> 200 then (Some (StatusNotOK (Status resp)), c1, s1)
          else (case Body resp of
                  (data, err) \<Rightarrow> (err, c1\<lparr>serverChallenge := Some data\<rparr>, s1)))"

definition PairAccount :: "env \<Rightarrow> Client \<Rightarrow> state \<Rightarrow> error option \<times> Client \<times> state" where
  "PairAccount E c s =
     (case serverMode c of
        Receiving \<Rightarrow> sendAccountData E c s
      | Sending \<Rightarrow>
          (case getChallenge E c s of
             (Some err, c1, s1) \<Rightarrow> (Some err, c1, s1)
           | (None, c1, s1) \<Rightarrow> receiveAccountData E c1 s1)
      | UnrecognisedMode n \<Rightarrow> (Some (UnrecognisedServerMode (UnrecognisedMode n)), c, s))"

definition PairSyncDevice :: "env \<Rightarrow> Client \<Rightarrow> state \<Rightarrow> error option \<times> Client \<times> state" where
  "PairSyncDevice E c s =
     (case serverMode c of
        Receiving \<Rightarrow> sendSyncDeviceData E c s
      | Sending \<Rightarrow> receiveSyncDeviceData E c s
      | UnrecognisedMode n \<Rightarrow> (Some (UnrecognisedServerMode (UnrecognisedMode n)), c, s))"

section \<open>Sequences of operations\<close>

text \<open>The methods of a \<open>PayloadEncryptionManager\<close>, as a caller may issue them in any order.\<close>

datatype pem_op =
    OpEncryptPlain bytes
  | OpEncrypt bytes
  | OpDecrypt bytes
  | OpToSend
  | OpReceived
  | OpLockPayload
  | OpResetPayload

fun pem_step ::
  "env \<Rightarrow> pem_op \<Rightarrow> PayloadEncryptionManager \<times> state \<Rightarrow> PayloadEncryptionManager \<times> state" where
  "pem_step E (OpEncryptPlain p) (pem, s) = (pem, snd (EncryptPlain E pem p s))"
| "pem_step E (OpEncrypt d) (pem, s) = (pem, snd (Encrypt E pem d s))"
| "pem_step E (OpDecrypt d) (pem, s) = (pem, snd (Decrypt E pem d s))"
| "pem_step E OpToSend (pem, s) = (pem, s)"
| "pem_step E OpReceived (pem, s) = (pem, s)"
| "pem_step E OpLockPayload (pem, s) = (pem, LockPayload pem s)"
| "pem_step E OpResetPayload (pem, s) = ResetPayload pem s"

fun pem_run ::
  "env \<Rightarrow> pem_op list \<Rightarrow> PayloadEncryptionManager \<times> state \<Rightarrow> PayloadEncryptionManager \<times> state" where
  "pem_run E [] c = c"
| "pem_run E (x # xs) c = pem_run E xs (pem_step E x c)"

definition slots_locked :: "PayloadEncryptionManager \<times> state \<Rightarrow> bool" where
  "slots_locked c =
     (locked (cells (snd c) (toSend (fst c))) \<and> locked (cells (snd c) (received (fst c))))"

text \<open>
  The methods of the \<open>PayloadManager\<close> interface, on either manager of a client, and the
  two protocol runs of the client.
\<close>

datatype mgr_op =
    DoMount
  | DoReceive bytes
  | DoToSend
  | DoReceived
  | DoResetPayload
  | DoEncryptPlain bytes
  | DoLockPayload

datatype client_op = OnAccount mgr_op | OnRaw mgr_op | DoPairAccount | DoPairSyncDevice

fun account_step :: "env \<Rightarrow> mgr_op \<Rightarrow> Client \<times> state \<Rightarrow> Client \<times> state" where
  "account_step E DoMount (c, s) = (c, snd (APM_Mount E (PayloadManager c) s))"
| "account_step E (DoReceive d) (c, s) = (c, snd (APM_Receive E (PayloadManager c) d s))"
| "account_step E DoToSend (c, s) = (c, s)"
| "account_step E DoReceived (c, s) = (c, s)"
| "account_step E DoResetPayload (c, s) =
     (case APM_ResetPayload (PayloadManager c) s of (m, s1) \<Rightarrow> (c\<lparr>PayloadManager := m\<rparr>, s1))"
| "account_step E (DoEncryptPlain p) (c, s) =
     (c, snd (EncryptPlain E (apm_pem (PayloadManager c)) p s))"
| "account_step E DoLockPayload (c, s) = (c, LockPayload (apm_pem (PayloadManager c)) s)"

fun raw_step :: "env \<Rightarrow> mgr_op \<Rightarrow> Client \<times> state \<Rightarrow> Client \<times> state" where
  "raw_step E DoMount (c, s) = (c, snd (RMPM_Mount E (rawMessagePayloadManager c) s))"
| "raw_step E (DoReceive d) (c, s) = (c, snd (RMPM_Receive E (rawMessagePayloadManager c) d s))"
| "raw_step E DoToSend (c, s) = (c, s)"
| "raw_step E DoReceived (c, s) = (c, s)"
| "raw_step E DoResetPayload (c, s) =
     (case RMPM_ResetPayload (rawMessagePayloadManager c) s of
        (m, s1) \<Rightarrow> (c\<lparr>rawMessagePayloadManager := m\<rparr>, s1))"
| "raw_step E (DoEncryptPlain p) (c, s) =
     (c, snd (EncryptPlain E (rm_pem (rawMessagePayloadManager c)) p s))"
| "raw_step E DoLockPayload (c, s) = (c, LockPayload (rm_pem (rawMessagePayloadManager c)) s)"

fun client_step :: "env \<Rightarrow> client_op \<Rightarrow> Client \<times> state \<Rightarrow> Client \<times> state" where
  "client_step E (OnAccount x) cs = account_step E x cs"
| "client_step E (OnRaw x) cs = raw_step E x cs"
| "client_step E DoPairAccount (c, s) = snd (PairAccount E c s)"
| "client_step E DoPairSyncDevice (c, s) = snd (PairSyncDevice E c s)"

fun client_run :: "env \<Rightarrow> client_op list \<Rightarrow> Client \<times> state \<Rightarrow> Client \<times> state" where
  "client_run E [] cs = cs"
| "client_run E (x # xs) cs = client_run E xs (client_step E x cs)"

text \<open>
  The four slots of a client are four different cells, all allocated: the two managers
  share no \<open>EncryptionPayload\<close>.
\<close>

definition separate :: "Client \<times> state \<Rightarrow> bool" where
  "separate cs =
     (let a = apm_pem (PayloadManager (fst cs)); r = rm_pem (rawMessagePayloadManager (fst cs));
          n = fresh (snd cs)
      in toSend a \<noteq> toSend r \<and> toSend a \<noteq> received r \<and>
         received a \<noteq> toSend r \<and> received a \<noteq> received r \<and>
         toSend a < n \<and> received a < n \<and> toSend r < n \<and> received r < n)"

text \<open>\<open>xs\<close> lists every entry of the map \<open>m\<close> once: a possible order of a \<open>range\<close> over it.\<close>

definition enumerates :: "(string \<rightharpoonup> bytes) \<Rightarrow> (string \<times> bytes) list \<Rightarrow> bool" where
  "enumerates m xs = (distinct (map fst xs) \<and> map_of xs = m)"

section \<open>Validation and loading, step by step\<close>

text \<open>
  A key entry fails password validation when decrypting it with the password fails or
  the recovered key fails the extended-key check.
\<close>

definition fails_password_validation :: "env \<Rightarrow> string \<Rightarrow> bytes \<Rightarrow> bool" where
  "fails_password_validation E pw key =
     (case keystore_DecryptKey E key pw of
        Inl e \<Rightarrow> True
      | Inr k \<Rightarrow> ValidateKeystoreExtendedKey E k \<noteq> None)"










section \<open>A concrete environment\<close>

text \<open>
  Small stand-ins for the collaborators, on which the model can be evaluated. The cipher
  puts the key in front of the plaintext and rejects data that does not start with the
  key. A key file starts with two bytes, the length of its address field and the length of
  the password that decrypts it; as in the keystore package, decrypting a key does not
  look at the address field. The protobuf codec knows \<open>example_message\<close> only. The
  keystore directory holds the key files \<open>a.json\<close> and \<open>b.json\<close> and a directory \<open>old\<close>
  with a key file of its own.
\<close>

definition example_Encrypt :: "bytes \<Rightarrow> bytes \<Rightarrow> nat \<Rightarrow> error + bytes" where
  "example_Encrypt plaintext key n = Inr (key @ plaintext)"

definition example_Decrypt :: "bytes \<Rightarrow> bytes \<Rightarrow> error + bytes" where
  "example_Decrypt data key =
     (if take (length key) data = key then Inr (drop (length key) data)
      else Inl (ExternalError ''cipher: message authentication failed''))"

fun example_DecryptKey :: "bytes \<Rightarrow> string \<Rightarrow> error + Key" where
  "example_DecryptKey (a # p # rest) pw =
     (if unat p = length pw then Inr \<lparr>PrivateKey = [a], ExtendedKey = rest\<rparr>
      else Inl (ExternalError ''could not decrypt key with given password''))"
| "example_DecryptKey raw pw = Inl (ExternalError ''invalid key file'')"

definition example_json :: "bytes \<Rightarrow> error + EncryptedKeyJSONV3 option" where
  "example_json raw =
     (case raw of
        [] \<Rightarrow> Inl (ExternalError ''unexpected end of JSON input'')
      | a # rest \<Rightarrow> Inr (Some \<lparr>Address = replicate (unat a) CHR ''a''\<rparr>))"

definition example_range :: "string list \<Rightarrow> (string \<rightharpoonup> bytes) \<Rightarrow> (string \<times> bytes) list" where
  "example_range names m =
     concat (map (\<lambda>n. case m n of None \<Rightarrow> [] | Some d \<Rightarrow> [(n, d)]) names)"

definition example_message :: LocalPairingPayload where
  "example_message =
     \<lparr>Keys = [\<lparr>Name = ''b.json'', Data = [40, 2, 7]\<rparr>, \<lparr>Name = ''a.json'', Data = [40, 2]\<rparr>],
      Multiaccount = Some \<lparr>pb_KeyUID = ''0x01'', pb_Name = ''M''\<rparr>, Password = ''pw''\<rparr>"

definition example_visits :: "visit list" where
  "example_visits =
     [\<lparr>vpath = ''/data/keystore'', vdir = ''/data'', vname = ''keystore'', visDir = True,
        verr = None\<rparr>,
      \<lparr>vpath = ''/data/keystore/a.json'', vdir = ''/data/keystore'', vname = ''a.json'',
        visDir = False, verr = None\<rparr>,
      \<lparr>vpath = ''/data/keystore/b.json'', vdir = ''/data/keystore'', vname = ''b.json'',
        visDir = False, verr = None\<rparr>,
      \<lparr>vpath = ''/data/keystore/old'', vdir = ''/data/keystore'', vname = ''old'',
        visDir = True, verr = None\<rparr>,
      \<lparr>vpath = ''/data/keystore/old/z.json'', vdir = ''/data/keystore/old'', vname = ''z.json'',
        visDir = False, verr = None\<rparr>]"

definition example_env :: env where
  "example_env =
     \<lparr>common_Encrypt = example_Encrypt,
      common_Decrypt = example_Decrypt,
      proto_Marshal = (\<lambda>m. if m = example_message then Inr [10, 20, 30]
                            else Inl (ExternalError ''proto: cannot marshal'')),
      proto_Unmarshal = (\<lambda>b. if b = [10, 20, 30] then Inr example_message
                              else Inl (ExternalError ''proto: cannot parse'')),
      Account_ToProtobuf = (\<lambda>a. case a of None \<Rightarrow> Inl NilDereference
                              | Some x \<Rightarrow> Inr (Some \<lparr>pb_KeyUID = KeyUID x, pb_Name = AccountName x\<rparr>)),
      Account_FromProtobuf = (\<lambda>p. case p of None \<Rightarrow> Inl NilDereference
                              | Some x \<Rightarrow> Inr \<lparr>KeyUID = pb_KeyUID x, AccountName = pb_Name x\<rparr>),
      json_Unmarshal_key = example_json,
      keystore_DecryptKey = example_DecryptKey,
      ValidateKeystoreExtendedKey = (\<lambda>k. None),
      range_validateKeys = example_range [''a.json'', ''b.json''],
      range_storeKeys = example_range [''a.json'', ''b.json''],
      range_accountKeysToProtobuf = example_range [''b.json'', ''a.json''],
      filepath_Walk = (\<lambda>root. if root = ''/data/keystore'' then example_visits else
         [\<lparr>vpath = root, vdir = [], vname = [], visDir = False,
           verr = Some (ExternalError ''no such file or directory'')\<rparr>]),
      ioutil_ReadFile = (\<lambda>p. if p = ''/data/keystore/b.json'' then Inr [40, 2, 7] else Inr [40, 2]),
      os_MkdirAll = (\<lambda>p. None),
      ioutil_WriteFile = (\<lambda>p d. None),
      PrepareRawMessage = (\<lambda>uid. Inr [7, 7]),
      HandleRawMessage = (\<lambda>a pw ksp d. None),
      http_NewRequest = (\<lambda>p. None),
      http_Do = (\<lambda>n r. Inr \<lparr>StatusCode = 200, Status = ''200 OK'', Body = ([], None)\<rparr>),
      base58_Encode = (\<lambda>b. replicate (length b) CHR ''1''),
      getServerCert = (\<lambda>u. Inr [1]),
      verifyCert = (\<lambda>cert pk. None),
      pem_EncodeToMemory = (\<lambda>b. b),
      x509_SystemCertPool = None,
      AppendCertsFromPEM = (\<lambda>b. True),
      cookiejar_New = None\<rparr>"

definition example_db :: Database where
  "example_db =
     \<lparr>GetAccount = (\<lambda>uid. (Some \<lparr>KeyUID = uid, AccountName = ''M''\<rparr>, None)),
      SaveAccount = (\<lambda>a. None)\<rparr>"

text \<open>The state before anything is allocated.\<close>

definition empty_state :: state where
  "empty_state =
     \<lparr>cells = (\<lambda>a. \<lparr>plain = [], encrypted = [], locked = False\<rparr>), fresh = 0,
      accountPayload = \<lparr>keys = Map.empty, multiaccount = None, password = []\<rparr>,
      rawPayload = [], rand_pos = 0, effects = [], requests = [], signals = []\<rparr>"

definition example_pem :: PayloadEncryptionManager where
  "example_pem = \<lparr>aesKey = [9, 9], toSend = 0, received = 1\<rparr>"

definition example_apr :: AccountPayloadRepository where
  "example_apr =
     \<lparr>multiaccountsDB = Some example_db, keystorePath = ''/data/keystore'', keyUID = ''0x01''\<rparr>"

definition example_config :: AccountPayloadManagerConfig where
  "example_config =
     \<lparr>cfg_DB = Some example_db,
      cfg_source = Some \<lparr>cfg_KeystorePath = ''/data/keystore'', cfg_KeyUID = ''0x01'',
                         cfg_Password = ''pw''\<rparr>\<rparr>"

definition example_params :: ConnectionParams where
  "example_params =
     \<lparr>cp_URL = Inr ''https://192.168.0.2:4000'', cp_publicKey = [2], cp_aesKey = [9, 9],
      cp_serverMode = Receiving\<rparr>"

text \<open>The client and the state that \<open>NewPairingClient\<close> builds from these.\<close>

definition example_client :: Client where
  "example_client =
     \<lparr>PayloadManager = \<lparr>apm_pem = example_pem, payloadRepository = example_apr\<rparr>,
      rawMessagePayloadManager =
        \<lparr>rm_pem = \<lparr>aesKey = [9, 9], toSend = 2, received = 3\<rparr>,
         rm_payloadRepository = \<lparr>rm_keystorePath = ''/data/keystore''\<rparr>\<rparr>,
      baseAddress = ''https://192.168.0.2:4000'', baseAddress_Path = None, certPEM = [1],
      serverPK = [2], serverMode = Receiving, serverCert = [1], serverChallenge = None\<rparr>"

definition example_state :: state where
  "example_state =
     empty_state\<lparr>fresh := 4,
       accountPayload := \<lparr>keys = Map.empty, multiaccount = None, password = ''pw''\<rparr>\<rparr>"

definition example_payload :: AccountPayload where
  "example_payload =
     \<lparr>keys = [''old.json'' \<mapsto> [1], ''a.json'' \<mapsto> [2]], multiaccount = None, password = []\<rparr>"

text \<open>A payload as received, with \<open>b\<close> the bytes of the key \<open>b.json\<close>.\<close>

definition example_account_payload :: "bytes \<Rightarrow> AccountPayload" where
  "example_account_payload b =
     \<lparr>keys = [''a.json'' \<mapsto> [40, 2], ''b.json'' \<mapsto> b],
      multiaccount = Some \<lparr>KeyUID = ''0x01'', AccountName = ''M''\<rparr>, password = ''pw''\<rparr>"


definition example_received_state :: state where
  "example_received_state = example_state\<lparr>accountPayload := example_account_payload [3, 2]\<rparr>"

text \<open>
  The example client after \<open>PairAccount\<close> in the example state, and the state after
  \<open>PairSyncDevice\<close> then.
\<close>

definition example_pushed_client :: Client where
  "example_pushed_client = example_client\<lparr>baseAddress_Path := Some pairingReceiveAccount\<rparr>"

definition example_pushed :: state where
  "example_pushed = snd (snd (PairAccount example_env example_client example_state))"

definition example_synced :: state where
  "example_synced =
     snd (snd (PairSyncDevice example_env example_pushed_client example_pushed))"

section \<open>The lock of the encryption manager\<close>

lemma LockPayload_locks: "slots_locked (pem, LockPayload pem s)"
  by (simp add: slots_locked_def LockPayload_def lock_def)

lemma pem_step_keeps_lock:
  assumes "x \<noteq> OpResetPayload" and "slots_locked c"
  shows "slots_locked (pem_step E x c) \<and> fst (pem_step E x c) = fst c"
  using assms
  by (cases c; cases x)
     (auto simp: slots_locked_def EncryptPlain_def Encrypt_def Decrypt_def LockPayload_def
                 lock_def Let_def split: sum.splits)

lemma pem_run_keeps_lock:
  "OpResetPayload \<notin> set ops \<Longrightarrow> slots_locked c \<Longrightarrow>
   slots_locked (pem_run E ops c) \<and> fst (pem_run E ops c) = fst c"
proof (induction ops arbitrary: c)
  case Nil
  then show ?case by simp
next
  case (Cons x xs)
  from Cons.prems have x: "x \<noteq> OpResetPayload" and xs: "OpResetPayload \<notin> set xs" by auto
  from pem_step_keeps_lock [OF x Cons.prems(2)]
  have a: "slots_locked (pem_step E x c)" and b: "fst (pem_step E x c) = fst c" by auto
  from Cons.IH [OF xs a] b show ?case by simp
qed

lemma locked_hides: "slots_locked (pem, s) \<Longrightarrow> ToSend pem s = [] \<and> Received pem s = []"
  by (simp add: slots_locked_def ToSend_def Received_def)

lemma lock_idem: "lock a (lock a s) = lock a s"
  by (simp add: lock_def)

lemma lock_commute: "lock a (lock b s) = lock b (lock a s)"
  by (cases "a = b") (auto simp: lock_def fun_upd_twist)

text \<open>
  C3. After \<open>LockPayload\<close>, whatever the two slots held before and whatever methods other
  than \<open>ResetPayload\<close> are called afterwards (in any number and order), \<open>ToSend\<close> and
  \<open>Received\<close> return the empty slice.
\<close>

theorem lock_hides_until_reset:
  assumes "OpResetPayload \<notin> set ops"
    and "pem_run E ops (pem, LockPayload pem s) = (pem', s')"
  shows "pem' = pem \<and> ToSend pem' s' = [] \<and> Received pem' s' = []"
proof -
  from pem_run_keeps_lock [OF assms(1) LockPayload_locks, of E pem s] assms(2)
  have "slots_locked (pem', s')" and "pem' = pem" by auto
  then show ?thesis using locked_hides by blast
qed

text \<open>
  An instance of C3: a manager whose outbound slot holds a ciphertext is locked, then
  encrypts, decrypts, locks again and reads; both accessors return empty.
\<close>

theorem lock_hides_until_reset_witness:
  "OpResetPayload \<notin> set [OpEncrypt [1], OpDecrypt [9, 9, 5], OpLockPayload, OpToSend] \<and>
   ToSend example_pem
     (snd (pem_run example_env [OpEncrypt [1], OpDecrypt [9, 9, 5], OpLockPayload, OpToSend]
            (example_pem, LockPayload example_pem
               (snd (Encrypt example_env example_pem [4] empty_state))))) = [] \<and>
   Received example_pem
     (snd (pem_run example_env [OpEncrypt [1], OpDecrypt [9, 9, 5], OpLockPayload, OpToSend]
            (example_pem, LockPayload example_pem
               (snd (Encrypt example_env example_pem [4] empty_state))))) = [] \<and>
   ToSend example_pem (snd (Encrypt example_env example_pem [4] empty_state)) = [9, 9, 4]"
proof -
  have h: "OpResetPayload \<notin> set [OpEncrypt [1], OpDecrypt [9, 9, 5], OpLockPayload, OpToSend]"
    by simp
  have e: "ToSend example_pem (snd (Encrypt example_env example_pem [4] empty_state)) = [9, 9, 4]"
    by (simp add: Encrypt_def ToSend_def example_env_def example_pem_def empty_state_def
          example_Encrypt_def Let_def)
  from lock_hides_until_reset [OF h surjective_pairing] h e show ?thesis
    by (metis (no_types, lifting))
qed

text \<open>
  C5, as the code has it. \<open>LockPayload\<close> is idempotent, and no method other than
  \<open>ResetPayload\<close> undoes it: after any sequence of methods without \<open>ResetPayload\<close> both
  slots of the instance are still locked. \<open>ResetPayload\<close> gives the same instance two new
  slots, which are not locked.
\<close>

theorem lock_only_undone_by_reset:
  "LockPayload pem (LockPayload pem s) = LockPayload pem s \<and>
   (OpResetPayload \<notin> set ops \<longrightarrow>
      slots_locked (pem_run E ops (pem, LockPayload pem s)) \<and>
      fst (pem_run E ops (pem, LockPayload pem s)) = pem) \<and>
   \<not> locked (cells (snd (ResetPayload pem (LockPayload pem s)))
               (toSend (fst (ResetPayload pem (LockPayload pem s))))) \<and>
   \<not> locked (cells (snd (ResetPayload pem (LockPayload pem s)))
               (received (fst (ResetPayload pem (LockPayload pem s)))))"
proof -
  have a: "LockPayload pem (LockPayload pem s) = LockPayload pem s"
    unfolding LockPayload_def
    by (metis lock_idem lock_commute)
  have b: "OpResetPayload \<notin> set ops \<longrightarrow>
      slots_locked (pem_run E ops (pem, LockPayload pem s)) \<and>
      fst (pem_run E ops (pem, LockPayload pem s)) = pem"
    using pem_run_keeps_lock [OF _ LockPayload_locks, of ops E pem s] by simp
  have c: "\<not> locked (cells (snd (ResetPayload pem t)) (toSend (fst (ResetPayload pem t)))) \<and>
           \<not> locked (cells (snd (ResetPayload pem t)) (received (fst (ResetPayload pem t))))" for t
    by (simp add: ResetPayload_def new_EncryptionPayload_def Let_def)
  from a b c show ?thesis by blast
qed

theorem lock_only_undone_by_reset_witness:
  "OpResetPayload \<notin> set [OpEncrypt [1], OpDecrypt [9, 9, 5]] \<and>
   slots_locked (pem_run example_env [OpEncrypt [1], OpDecrypt [9, 9, 5]]
                   (example_pem, LockPayload example_pem empty_state)) \<and>
   LockPayload example_pem (LockPayload example_pem empty_state) =
     LockPayload example_pem empty_state"
  using lock_only_undone_by_reset
          [of example_pem empty_state "[OpEncrypt [1], OpDecrypt [9, 9, 5]]" example_env]
  by simp

text \<open>
  C5 as claimed fails: an instance that encrypts, locks, resets and encrypts again hands
  out the new ciphertext through \<open>ToSend\<close>.
\<close>

theorem lock_rearmed_by_reset:
  "ToSend
     (fst (pem_run example_env [OpEncrypt [1], OpLockPayload, OpResetPayload, OpEncrypt [2]]
            (example_pem, empty_state)))
     (snd (pem_run example_env [OpEncrypt [1], OpLockPayload, OpResetPayload, OpEncrypt [2]]
            (example_pem, empty_state))) = [9, 9, 2]"
  by (simp add: example_env_def example_pem_def empty_state_def Encrypt_def LockPayload_def
        lock_def ResetPayload_def new_EncryptionPayload_def ToSend_def example_Encrypt_def Let_def)

section \<open>Unrecognised server modes\<close>

text \<open>
  C8. For a server mode that is neither \<open>Receiving\<close> nor \<open>Sending\<close>, \<open>PairAccount\<close> and
  \<open>PairSyncDevice\<close> both return the error for an unrecognised mode, and neither the
  client nor the state changes: no manager is touched, no request is sent, no event is
  signalled.
\<close>

theorem unrecognised_mode_fails:
  assumes "serverMode c \<noteq> Receiving" and "serverMode c \<noteq> Sending"
  shows "PairAccount E c s = (Some (UnrecognisedServerMode (serverMode c)), c, s) \<and>
         PairSyncDevice E c s = (Some (UnrecognisedServerMode (serverMode c)), c, s)"
  using assms by (cases "serverMode c") (simp_all add: PairAccount_def PairSyncDevice_def)

theorem unrecognised_mode_fails_witness:
  "serverMode (example_client\<lparr>serverMode := UnrecognisedMode 7\<rparr>) \<noteq> Receiving \<and>
   serverMode (example_client\<lparr>serverMode := UnrecognisedMode 7\<rparr>) \<noteq> Sending \<and>
   PairAccount example_env (example_client\<lparr>serverMode := UnrecognisedMode 7\<rparr>) empty_state =
     (Some (UnrecognisedServerMode (UnrecognisedMode 7)),
      example_client\<lparr>serverMode := UnrecognisedMode 7\<rparr>, empty_state) \<and>
   PairSyncDevice example_env (example_client\<lparr>serverMode := UnrecognisedMode 7\<rparr>) empty_state =
     (Some (UnrecognisedServerMode (UnrecognisedMode 7)),
      example_client\<lparr>serverMode := UnrecognisedMode 7\<rparr>, empty_state)"
proof -
  have a: "serverMode (example_client\<lparr>serverMode := UnrecognisedMode 7\<rparr>) \<noteq> Receiving"
    and b: "serverMode (example_client\<lparr>serverMode := UnrecognisedMode 7\<rparr>) \<noteq> Sending"
    by simp_all
  from unrecognised_mode_fails [OF a b, of example_env empty_state] a b show ?thesis by simp
qed

section \<open>Unmarshalling into a payload that already has keys\<close>

lemma loop_absent:
  "n \<notin> Name ` set ks \<Longrightarrow> accountKeysFromProtobuf_loop ks m n = m n"
  by (induction ks arbitrary: m) auto

lemma loop_present:
  "n \<in> Name ` set ks \<Longrightarrow>
   \<exists>k \<in> set ks. Name k = n \<and> accountKeysFromProtobuf_loop ks m n = Some (Data k)"
proof (induction ks arbitrary: m)
  case Nil
  then show ?case by simp
next
  case (Cons k ks)
  show ?case
  proof (cases "n \<in> Name ` set ks")
    case True
    from Cons.IH [OF True] show ?thesis by auto
  next
    case False
    with Cons.prems have "Name k = n" by auto
    with False show ?thesis by (auto simp: loop_absent)
  qed
qed

lemma UnmarshalProtobuf_keys:
  "proto_Unmarshal E data = Inr pb \<Longrightarrow>
   keys (snd (UnmarshalProtobuf E data ap)) = accountKeysFromProtobuf_loop (Keys pb) (keys ap)"
  by (simp add: UnmarshalProtobuf_def multiaccountFromProtobuf_def accountKeysFromProtobuf_def
        split: sum.splits)

text \<open>
  C10. \<open>UnmarshalProtobuf\<close> merges into the keys mapping: when the wire data parses to
  the message \<open>pb\<close>, every name that no key of \<open>pb\<close> carries keeps what it had before the
  call (its old bytes, or its absence), and every name that a key of \<open>pb\<close> carries is
  mapped to the bytes of a key of \<open>pb\<close> with that name.
\<close>

theorem unmarshal_merges_keys:
  assumes "proto_Unmarshal E data = Inr pb"
  shows "(\<forall>n. n \<notin> Name ` set (Keys pb) \<longrightarrow>
             keys (snd (UnmarshalProtobuf E data ap)) n = keys ap n) \<and>
         (\<forall>n. n \<in> Name ` set (Keys pb) \<longrightarrow>
             (\<exists>k \<in> set (Keys pb). Name k = n \<and>
                keys (snd (UnmarshalProtobuf E data ap)) n = Some (Data k)))"
  using UnmarshalProtobuf_keys [OF assms, of ap] loop_absent loop_present by simp

theorem unmarshal_merges_keys_witness:
  "proto_Unmarshal example_env [10, 20, 30] = Inr example_message \<and>
   keys (snd (UnmarshalProtobuf example_env [10, 20, 30] example_payload)) ''old.json'' = Some [1] \<and>
   keys (snd (UnmarshalProtobuf example_env [10, 20, 30] example_payload)) ''a.json'' = Some [40, 2]"
proof -
  have h: "proto_Unmarshal example_env [10, 20, 30] = Inr example_message"
    by (simp add: example_env_def)
  have old: "''old.json'' \<notin> Name ` set (Keys example_message)"
    and new: "''a.json'' \<in> Name ` set (Keys example_message)"
    by (simp_all add: example_message_def)
  from unmarshal_merges_keys [OF h, of example_payload] old new
  have "keys (snd (UnmarshalProtobuf example_env [10, 20, 30] example_payload)) ''old.json'' =
          keys example_payload ''old.json''"
    and "\<exists>k \<in> set (Keys example_message). Name k = ''a.json'' \<and>
          keys (snd (UnmarshalProtobuf example_env [10, 20, 30] example_payload)) ''a.json'' =
            Some (Data k)"
    by blast+
  with h show ?thesis by (auto simp: example_payload_def example_message_def)
qed

section \<open>Storing an account payload\<close>

lemma validateKeys_loop_fails:
  "(n, d) \<in> set xs \<Longrightarrow> fails_password_validation E pw d \<Longrightarrow> validateKeys_loop E pw xs \<noteq> None"
  by (induction xs) (auto simp: fails_password_validation_def split: sum.splits option.splits)

lemma enumerates_mem: "enumerates m xs \<Longrightarrow> m n = Some d \<Longrightarrow> (n, d) \<in> set xs"
  by (auto simp: enumerates_def)

lemma example_enumerates:
  "enumerates (keys (example_account_payload b))
     (example_range [''a.json'', ''b.json''] (keys (example_account_payload b)))"
  by (auto simp: enumerates_def example_account_payload_def example_range_def fun_eq_iff)

lemma replicate_3: "replicate 3 c = [c, c, c]"
  by (simp add: numeral_3_eq_3)

text \<open>
  C1, as the code has it. When some entry of the keys mapping fails password validation,
  \<open>StoreToSource\<close> returns an error and leaves the state as it was: no directory was
  made, no key file written, no account record saved.
\<close>

theorem store_validates_passwords_first:
  assumes "enumerates (keys (accountPayload s)) (range_validateKeys E (keys (accountPayload s)))"
    and "keys (accountPayload s) n = Some d"
    and "fails_password_validation E (password (accountPayload s)) d"
  shows "\<exists>e. StoreToSource E apr s = (Some e, s)"
proof -
  from enumerates_mem [OF assms(1,2)] assms(3)
  have "validateKeys E (accountPayload s) (password (accountPayload s)) \<noteq> None"
    unfolding validateKeys_def by (rule validateKeys_loop_fails)
  then show ?thesis by (auto simp: StoreToSource_def)
qed

theorem store_validates_passwords_first_witness:
  "enumerates (keys (example_account_payload [40, 5]))
     (range_validateKeys example_env (keys (example_account_payload [40, 5]))) \<and>
   keys (example_account_payload [40, 5]) ''b.json'' = Some [40, 5] \<and>
   fails_password_validation example_env ''pw'' [40, 5] \<and>
   StoreToSource example_env example_apr
     (example_state\<lparr>accountPayload := example_account_payload [40, 5]\<rparr>) =
     (Some (ExternalError ''could not decrypt key with given password''),
      example_state\<lparr>accountPayload := example_account_payload [40, 5]\<rparr>)"
proof -
  let ?s = "example_state\<lparr>accountPayload := example_account_payload [40, 5]\<rparr>"
  have a: "enumerates (keys (accountPayload ?s))
     (range_validateKeys example_env (keys (accountPayload ?s)))"
    using example_enumerates [of "[40, 5]"] by (simp add: example_env_def)
  have b: "keys (accountPayload ?s) ''b.json'' = Some [40, 5]"
    by (simp add: example_account_payload_def)
  have c: "fails_password_validation example_env (password (accountPayload ?s)) [40, 5]"
    by (simp add: fails_password_validation_def example_env_def example_account_payload_def)
  have d: "fst (StoreToSource example_env example_apr ?s) =
             Some (ExternalError ''could not decrypt key with given password'')"
    by (simp add: StoreToSource_def validateKeys_def example_env_def example_account_payload_def
          example_range_def)
  from store_validates_passwords_first [OF a b c, of example_apr] a b c d show ?thesis
    by (auto simp: example_account_payload_def)
qed

text \<open>
  C1 as claimed fails. Both keys pass password validation; the address field of
  \<open>b.json\<close> has length 3. The check of the address sits in the loop that writes, so the
  directory is made and \<open>a.json\<close> is written before \<open>StoreToSource\<close> returns the error.
\<close>

theorem store_partial_on_address_check:
  "fst (StoreToSource example_env example_apr example_received_state) =
     Some (InvalidAddressLength ''aaa'') \<and>
   effects (snd (StoreToSource example_env example_apr example_received_state)) =
     [MkdirAllCall (Join (Path ''/data/keystore'') ''0x01''),
      WriteFileCall (Join (Join (Path ''/data/keystore'') ''0x01'') ''a.json'') [40, 2]]"
  by (simp add: StoreToSource_def validateKeys_def storeKeys_def lastDir_def example_env_def
        example_account_payload_def example_range_def example_apr_def example_json_def
        example_received_state_def example_state_def empty_state_def replicate_3 Let_def)

section \<open>Receiving an account payload\<close>

text \<open>
  C2. When decrypting the data fails, \<open>Receive\<close> returns the cipher's error and the
  state is as before. When decrypting succeeds and unmarshalling the plaintext fails,
  \<open>Receive\<close> returns the error of unmarshalling and the record of writes is as before.
  In both cases \<open>StoreToSource\<close> is not reached.
\<close>

theorem receive_failure_writes_nothing:
  "(common_Decrypt E data (aesKey (apm_pem apm)) = Inl e \<longrightarrow>
      APM_Receive E apm data s = (Some e, s)) \<and>
   (Decrypt E (apm_pem apm) data s = (None, s1) \<and>
    fst (UnmarshalProtobuf E (Received (apm_pem apm) s1) (accountPayload s1)) = Some e \<longrightarrow>
      fst (APM_Receive E apm data s) = Some e \<and>
      effects (snd (APM_Receive E apm data s)) = effects s)"
  by (auto simp: APM_Receive_def Decrypt_def split: sum.splits prod.splits)

theorem receive_failure_writes_nothing_witness:
  "common_Decrypt example_env [1, 2, 3] (aesKey (apm_pem (PayloadManager example_client))) =
     Inl (ExternalError ''cipher: message authentication failed'') \<and>
   APM_Receive example_env (PayloadManager example_client) [1, 2, 3] example_state =
     (Some (ExternalError ''cipher: message authentication failed''), example_state) \<and>
   fst (Decrypt example_env (apm_pem (PayloadManager example_client)) [9, 9, 5] example_state) =
     None \<and>
   fst (APM_Receive example_env (PayloadManager example_client) [9, 9, 5] example_state) =
     Some (ExternalError ''proto: cannot parse'') \<and>
   effects (snd (APM_Receive example_env (PayloadManager example_client) [9, 9, 5] example_state))
     = []"
proof -
  let ?pm = "PayloadManager example_client"
  have a: "common_Decrypt example_env [1, 2, 3] (aesKey (apm_pem ?pm)) =
     Inl (ExternalError ''cipher: message authentication failed'')"
    by (simp add: example_env_def example_client_def example_pem_def example_Decrypt_def)
  obtain s1 where d: "Decrypt example_env (apm_pem ?pm) [9, 9, 5] example_state = (None, s1)"
    by (simp add: Decrypt_def example_env_def example_client_def example_pem_def
          example_Decrypt_def)
  have r: "Received (apm_pem ?pm) s1 = [5]"
    using d
    by (auto simp: Decrypt_def Received_def example_env_def example_client_def example_pem_def
          example_Decrypt_def example_state_def empty_state_def)
  have u: "fst (UnmarshalProtobuf example_env (Received (apm_pem ?pm) s1) (accountPayload s1)) =
             Some (ExternalError ''proto: cannot parse'')"
    unfolding r by (simp add: UnmarshalProtobuf_def example_env_def)
  have e0: "effects example_state = []" by (simp add: example_state_def empty_state_def)
  from receive_failure_writes_nothing [of example_env "[1, 2, 3]" ?pm _ example_state] a
  have 1: "APM_Receive example_env ?pm [1, 2, 3] example_state =
     (Some (ExternalError ''cipher: message authentication failed''), example_state)" by blast
  from receive_failure_writes_nothing [of example_env "[9, 9, 5]" ?pm _ example_state s1] d u
  have 2: "fst (APM_Receive example_env ?pm [9, 9, 5] example_state) =
             Some (ExternalError ''proto: cannot parse'')"
    and 3: "effects (snd (APM_Receive example_env ?pm [9, 9, 5] example_state)) =
             effects example_state" by blast+
  from a 1 2 3 d e0 show ?thesis by simp
qed

section \<open>Loading an account payload\<close>












section \<open>Round trip of the marshaller\<close>




section \<open>What each operation does to the store of slots\<close>

lemma Encrypt_frame:
  "Encrypt E pem d s = (r, s') \<Longrightarrow>
   fresh s' = fresh s \<and> requests s' = requests s \<and>
   (\<forall>a. a \<noteq> toSend pem \<longrightarrow> cells s' a = cells s a) \<and>
   (\<forall>a. locked (cells s' a) = locked (cells s a))"
  by (auto simp: Encrypt_def Let_def split: sum.splits if_splits)

lemma Decrypt_frame:
  "Decrypt E pem d s = (r, s') \<Longrightarrow>
   fresh s' = fresh s \<and> requests s' = requests s \<and>
   (\<forall>a. a \<noteq> received pem \<longrightarrow> cells s' a = cells s a) \<and>
   (\<forall>a. locked (cells s' a) = locked (cells s a))"
  by (auto simp: Decrypt_def split: sum.splits if_splits)

lemma EncryptPlain_frame:
  "EncryptPlain E pem p s = (r, s') \<Longrightarrow>
   fresh s' = fresh s \<and> requests s' = requests s \<and> cells s' = cells s"
  by (auto simp: EncryptPlain_def)

lemma LockPayload_frame:
  "fresh (LockPayload pem s) = fresh s \<and> requests (LockPayload pem s) = requests s \<and>
   (\<forall>a. a \<noteq> toSend pem \<and> a \<noteq> received pem \<longrightarrow> cells (LockPayload pem s) a = cells s a)"
  by (simp add: LockPayload_def lock_def)

lemma LoadFromSource_frame:
  "LoadFromSource E apr s = (r, s') \<Longrightarrow>
   fresh s' = fresh s \<and> requests s' = requests s \<and> cells s' = cells s"
  by (auto simp: LoadFromSource_def split: prod.splits option.splits)

lemma storeKeys_loop_frame:
  "storeKeys_loop E dir xs s = (r, s') \<Longrightarrow>
   fresh s' = fresh s \<and> requests s' = requests s \<and> cells s' = cells s"
proof (induction xs arbitrary: s)
  case Nil
  then show ?case by simp
next
  case (Cons x xs)
  obtain n d where x: "x = (n, d)" by (cases x)
  show ?case
  proof (cases "storeKeys_loop E dir xs
                  (s\<lparr>effects := effects s @ [WriteFileCall (Join dir n) d]\<rparr>) = (r, s')")
    case True
    from Cons.IH [OF True] show ?thesis by simp
  next
    case False
    with Cons.prems x show ?thesis
      by (auto simp: Let_def split: sum.splits option.splits if_splits)
  qed
qed

lemma storeKeys_frame:
  "storeKeys E ksp s = (r, s') \<Longrightarrow>
   fresh s' = fresh s \<and> requests s' = requests s \<and> cells s' = cells s"
  by (auto simp: storeKeys_def Let_def split: option.splits if_splits
        dest!: storeKeys_loop_frame)

lemma StoreToSource_frame:
  "StoreToSource E apr s = (r, s') \<Longrightarrow>
   fresh s' = fresh s \<and> requests s' = requests s \<and> cells s' = cells s"
  by (auto simp: StoreToSource_def storeMultiAccount_def split: option.splits prod.splits
        dest!: storeKeys_frame)

lemma APM_Mount_frame:
  "APM_Mount E apm s = (r, s') \<Longrightarrow>
   fresh s' = fresh s \<and> requests s' = requests s \<and>
   (\<forall>a. a \<noteq> toSend (apm_pem apm) \<longrightarrow> cells s' a = cells s a)"
  by (auto simp: APM_Mount_def split: prod.splits option.splits sum.splits
        dest!: LoadFromSource_frame Encrypt_frame)

lemma APM_Receive_frame:
  "APM_Receive E apm d s = (r, s') \<Longrightarrow>
   fresh s' = fresh s \<and> requests s' = requests s \<and>
   (\<forall>a. a \<noteq> received (apm_pem apm) \<longrightarrow> cells s' a = cells s a)"
  by (auto simp: APM_Receive_def split: prod.splits option.splits
        dest!: Decrypt_frame StoreToSource_frame)

lemma Raw_LoadFromSource_frame:
  "Raw_LoadFromSource E s = (r, s') \<Longrightarrow>
   fresh s' = fresh s \<and> requests s' = requests s \<and> cells s' = cells s"
  by (auto simp: Raw_LoadFromSource_def split: option.splits sum.splits if_splits)

lemma RMPM_Mount_frame:
  "RMPM_Mount E m s = (r, s') \<Longrightarrow>
   fresh s' = fresh s \<and> requests s' = requests s \<and>
   (\<forall>a. a \<noteq> toSend (rm_pem m) \<longrightarrow> cells s' a = cells s a)"
  by (auto simp: RMPM_Mount_def split: prod.splits option.splits
        dest!: Raw_LoadFromSource_frame Encrypt_frame)

lemma RMPM_Receive_frame:
  "RMPM_Receive E m d s = (r, s') \<Longrightarrow>
   fresh s' = fresh s \<and>
   (\<forall>a. a \<noteq> received (rm_pem m) \<longrightarrow> cells s' a = cells s a)"
  by (auto simp: RMPM_Receive_def Raw_StoreToSource_def split: prod.splits option.splits
        dest!: Decrypt_frame)

lemma sendAccountData_frame:
  "sendAccountData E c s = (r, c', s') \<Longrightarrow>
   PayloadManager c' = PayloadManager c \<and>
   rawMessagePayloadManager c' = rawMessagePayloadManager c \<and> fresh s' = fresh s \<and>
   (\<forall>a. a \<noteq> toSend (apm_pem (PayloadManager c)) \<and> a \<noteq> received (apm_pem (PayloadManager c))
        \<longrightarrow> cells s' a = cells s a)"
  by (auto simp: sendAccountData_def send_request_def SendLocalPairingEvent_def Let_def
        LockPayload_frame
        split: prod.splits option.splits sum.splits if_splits dest!: APM_Mount_frame)

lemma sendSyncDeviceData_frame:
  "sendSyncDeviceData E c s = (r, c', s') \<Longrightarrow>
   PayloadManager c' = PayloadManager c \<and>
   rawMessagePayloadManager c' = rawMessagePayloadManager c \<and> fresh s' = fresh s \<and>
   (\<forall>a. a \<noteq> toSend (rm_pem (rawMessagePayloadManager c)) \<longrightarrow> cells s' a = cells s a)"
  by (auto simp: sendSyncDeviceData_def send_request_def SendLocalPairingEvent_def Let_def
        split: prod.splits option.splits sum.splits if_splits dest!: RMPM_Mount_frame)

lemma fetch_payload_frame:
  "fetch_payload E path act c s = (r, c', s') \<Longrightarrow>
   PayloadManager c' = PayloadManager c \<and>
   rawMessagePayloadManager c' = rawMessagePayloadManager c \<and> fresh s' = fresh s \<and>
   cells s' = cells s"
  by (auto simp: fetch_payload_def send_request_def SendLocalPairingEvent_def Let_def
        split: prod.splits option.splits sum.splits if_splits dest!: EncryptPlain_frame)

lemma receiveAccountData_frame:
  "receiveAccountData E c s = (r, c', s') \<Longrightarrow>
   PayloadManager c' = PayloadManager c \<and>
   rawMessagePayloadManager c' = rawMessagePayloadManager c \<and> fresh s' = fresh s \<and>
   (\<forall>a. a \<noteq> received (apm_pem (PayloadManager c)) \<longrightarrow> cells s' a = cells s a)"
  by (auto simp: receiveAccountData_def SendLocalPairingEvent_def
        split: prod.splits option.splits sum.splits
        dest!: fetch_payload_frame APM_Receive_frame)

lemma receiveSyncDeviceData_frame:
  "receiveSyncDeviceData E c s = (r, c', s') \<Longrightarrow>
   PayloadManager c' = PayloadManager c \<and>
   rawMessagePayloadManager c' = rawMessagePayloadManager c \<and> fresh s' = fresh s \<and>
   (\<forall>a. a \<noteq> received (rm_pem (rawMessagePayloadManager c)) \<longrightarrow> cells s' a = cells s a)"
  by (auto simp: receiveSyncDeviceData_def SendLocalPairingEvent_def
        split: prod.splits option.splits sum.splits
        dest!: fetch_payload_frame RMPM_Receive_frame)

lemma getChallenge_frame:
  "getChallenge E c s = (r, c', s') \<Longrightarrow>
   PayloadManager c' = PayloadManager c \<and>
   rawMessagePayloadManager c' = rawMessagePayloadManager c \<and> fresh s' = fresh s \<and>
   cells s' = cells s"
  by (auto simp: getChallenge_def send_request_def Let_def
        split: prod.splits option.splits sum.splits if_splits)

lemma PairAccount_frame:
  "PairAccount E c s = (r, c', s') \<Longrightarrow>
   PayloadManager c' = PayloadManager c \<and>
   rawMessagePayloadManager c' = rawMessagePayloadManager c \<and> fresh s' = fresh s \<and>
   (\<forall>a. a \<noteq> toSend (apm_pem (PayloadManager c)) \<and> a \<noteq> received (apm_pem (PayloadManager c))
        \<longrightarrow> cells s' a = cells s a)"
  by (auto simp: PairAccount_def split: Mode.splits prod.splits option.splits
        dest!: sendAccountData_frame getChallenge_frame receiveAccountData_frame)

lemma PairSyncDevice_frame:
  "PairSyncDevice E c s = (r, c', s') \<Longrightarrow>
   PayloadManager c' = PayloadManager c \<and>
   rawMessagePayloadManager c' = rawMessagePayloadManager c \<and> fresh s' = fresh s \<and>
   (\<forall>a. a \<noteq> toSend (rm_pem (rawMessagePayloadManager c)) \<and>
        a \<noteq> received (rm_pem (rawMessagePayloadManager c)) \<longrightarrow> cells s' a = cells s a)"
  by (auto simp: PairSyncDevice_def split: Mode.splits
        dest!: sendSyncDeviceData_frame receiveSyncDeviceData_frame)


section \<open>Pushing to a receiving server\<close>

lemma APM_Mount_requests:
  "APM_Mount E apm s = (r, s') \<Longrightarrow> requests s' = requests s"
  by (auto simp: APM_Mount_def LoadFromSource_def Encrypt_def Let_def
        split: prod.splits option.splits sum.splits)

text \<open>
  C4. With the server in \<open>Receiving\<close> mode: when \<open>PairAccount\<close> returns without error,
  \<open>ToSend\<close> (and \<open>Received\<close>) of the account manager return empty; it returns without
  error whenever \<open>Mount\<close> succeeds and the POST is answered with status 200. When
  \<open>PairSyncDevice\<close> returns without error, the raw-message manager is exactly as locked
  as before, \<open>ToSend\<close> still returns the body that was posted, and if the manager was not
  locked that body is the ciphertext of the mounted raw payload.
\<close>

theorem push_locks_account_only:
  assumes "serverMode c = Receiving"
  shows
    "(PairAccount E c s = (None, c', s') \<longrightarrow>
        ToSend (apm_pem (PayloadManager c')) s' = [] \<and>
        Received (apm_pem (PayloadManager c')) s' = []) \<and>
     (APM_Mount E (PayloadManager c) s = (None, s1) \<and>
      http_Do E (length (requests s1))
        \<lparr>req_method = ''POST'', req_path = pairingReceiveAccount,
         req_body = ToSend (apm_pem (PayloadManager c)) s1, req_challenge = None\<rparr> = Inr resp \<and>
      StatusCode resp = 200 \<longrightarrow>
        fst (PairAccount E c s) = None) \<and>
     (PairSyncDevice E c s = (None, c'', s'') \<longrightarrow>
        requests s'' = requests s @
          [\<lparr>req_method = ''POST'', req_path = pairingSyncDeviceReceive,
            req_body = ToSend (rm_pem (rawMessagePayloadManager c'')) s'', req_challenge = None\<rparr>] \<and>
        locked (cells s'' (toSend (rm_pem (rawMessagePayloadManager c'')))) =
          locked (cells s (toSend (rm_pem (rawMessagePayloadManager c)))) \<and>
        (\<not> locked (cells s (toSend (rm_pem (rawMessagePayloadManager c)))) \<longrightarrow>
           common_Encrypt E (rawPayload s'') (aesKey (rm_pem (rawMessagePayloadManager c)))
             (rand_pos s) = Inr (ToSend (rm_pem (rawMessagePayloadManager c'')) s'')))"
proof -
  have a1: "PairAccount E c s = (None, c', s') \<longrightarrow>
        ToSend (apm_pem (PayloadManager c')) s' = [] \<and>
        Received (apm_pem (PayloadManager c')) s' = []"
    using assms
    by (auto simp: PairAccount_def sendAccountData_def Let_def ToSend_def Received_def
          LockPayload_def lock_def split: prod.splits option.splits sum.splits if_splits)
  have a2: "APM_Mount E (PayloadManager c) s = (None, s1) \<and>
      http_Do E (length (requests s1))
        \<lparr>req_method = ''POST'', req_path = pairingReceiveAccount,
         req_body = ToSend (apm_pem (PayloadManager c)) s1, req_challenge = None\<rparr> = Inr resp \<and>
      StatusCode resp = 200 \<longrightarrow>
        fst (PairAccount E c s) = None"
    using assms
    by (auto simp: PairAccount_def sendAccountData_def send_request_def Let_def)
  have b: "PairSyncDevice E c s = (None, c'', s'') \<longrightarrow>
        requests s'' = requests s @
          [\<lparr>req_method = ''POST'', req_path = pairingSyncDeviceReceive,
            req_body = ToSend (rm_pem (rawMessagePayloadManager c'')) s'', req_challenge = None\<rparr>] \<and>
        locked (cells s'' (toSend (rm_pem (rawMessagePayloadManager c'')))) =
          locked (cells s (toSend (rm_pem (rawMessagePayloadManager c)))) \<and>
        (\<not> locked (cells s (toSend (rm_pem (rawMessagePayloadManager c)))) \<longrightarrow>
           common_Encrypt E (rawPayload s'') (aesKey (rm_pem (rawMessagePayloadManager c)))
             (rand_pos s) = Inr (ToSend (rm_pem (rawMessagePayloadManager c'')) s''))"
    using assms
    by (auto simp: PairSyncDevice_def sendSyncDeviceData_def RMPM_Mount_def
          Raw_LoadFromSource_def Encrypt_def send_request_def SendLocalPairingEvent_def
          ToSend_def Let_def
          split: prod.splits option.splits sum.splits if_splits)
  from a1 a2 b show ?thesis by blast
qed

lemma example_new_client:
  "NewPairingClient example_env example_params (Some example_config) empty_state =
     (Inr example_client, example_state)"
  by (simp add: NewPairingClient_def NewAccountPayloadManager_def NewRawMessagePayloadManager_def
        NewAccountPayloadRepository_def NewRawMessageRepository_def
        NewPayloadEncryptionManager_def new_EncryptionPayload_def Let_def
        example_env_def example_params_def example_config_def example_client_def
        example_state_def empty_state_def example_pem_def example_apr_def fun_eq_iff)

lemma example_loadKeys:
  "loadKeys example_env ''/data/keystore'' ap =
     (None, ap\<lparr>keys := [''a.json'' \<mapsto> [40, 2], ''b.json'' \<mapsto> [40, 2, 7]]\<rparr>)"
  by (simp add: loadKeys_def example_env_def example_visits_def fileWalker_def example_json_def)

lemma example_load:
  "LoadFromSource example_env example_apr example_state =
     (None, example_state\<lparr>accountPayload := example_account_payload [40, 2, 7]\<rparr>)"
  by (simp add: LoadFromSource_def example_apr_def example_loadKeys)
     (simp add: validateKeys_def example_env_def example_range_def example_state_def
        empty_state_def example_db_def example_account_payload_def)

lemma example_marshal:
  "MarshalToProtobuf example_env (example_account_payload [40, 2, 7]) = Inr [10, 20, 30]"
  by (simp add: MarshalToProtobuf_def accountKeysToProtobuf_def example_env_def
        example_range_def example_account_payload_def example_message_def)

lemma example_PairAccount:
  "PairAccount example_env example_client example_state =
     (None, example_pushed_client, example_pushed)"
  unfolding example_pushed_def example_pushed_client_def
  by (simp add: PairAccount_def sendAccountData_def APM_Mount_def example_load example_marshal
        example_client_def)
     (simp add: Encrypt_def send_request_def example_env_def example_Encrypt_def Let_def)

lemma example_pushed_fields:
  "multiaccount (accountPayload example_pushed) = Some \<lparr>KeyUID = ''0x01'', AccountName = ''M''\<rparr>"
  "\<not> locked (cells example_pushed 2)"
  unfolding example_pushed_def
  by (simp_all add: PairAccount_def sendAccountData_def APM_Mount_def example_load example_marshal
        example_client_def)
     (simp_all add: Encrypt_def send_request_def example_env_def example_Encrypt_def Let_def
        SendLocalPairingEvent_def LockPayload_def lock_def example_pem_def
        example_account_payload_def example_state_def empty_state_def)

lemma example_PairSyncDevice:
  "PairSyncDevice example_env example_pushed_client example_pushed =
     (None, example_pushed_client\<lparr>baseAddress_Path := Some pairingSyncDeviceReceive\<rparr>,
      example_synced)"
  unfolding example_synced_def
  by (simp add: PairSyncDevice_def sendSyncDeviceData_def RMPM_Mount_def Raw_LoadFromSource_def
        example_pushed_fields example_pushed_client_def example_client_def)
     (simp add: Encrypt_def send_request_def example_env_def example_Encrypt_def Let_def)

lemma example_synced_fields:
  "rawPayload example_synced = [7, 7]"
  "ToSend (rm_pem (rawMessagePayloadManager example_client)) example_synced = [9, 9, 7, 7]"
  unfolding example_synced_def
  by (simp_all add: PairSyncDevice_def sendSyncDeviceData_def RMPM_Mount_def
        Raw_LoadFromSource_def example_pushed_fields example_pushed_client_def example_client_def)
     (simp_all add: Encrypt_def send_request_def example_env_def example_Encrypt_def Let_def
        SendLocalPairingEvent_def ToSend_def example_pushed_fields)

theorem push_locks_account_only_witness:
  "serverMode example_client = Receiving \<and>
   PairAccount example_env example_client example_state =
     (None, example_pushed_client, example_pushed) \<and>
   ToSend (apm_pem (PayloadManager example_pushed_client)) example_pushed = [] \<and>
   PairSyncDevice example_env example_pushed_client example_pushed =
     (None, example_pushed_client\<lparr>baseAddress_Path := Some pairingSyncDeviceReceive\<rparr>,
      example_synced) \<and>
   \<not> locked (cells example_pushed (toSend (rm_pem (rawMessagePayloadManager example_pushed_client)))) \<and>
   ToSend (rm_pem (rawMessagePayloadManager example_pushed_client)) example_synced = [9, 9, 7, 7]"
proof -
  let ?c2 = "example_pushed_client\<lparr>baseAddress_Path := Some pairingSyncDeviceReceive\<rparr>"
  have m1: "serverMode example_client = Receiving"
    and m2: "serverMode example_pushed_client = Receiving"
    by (simp_all add: example_client_def example_pushed_client_def)
  have u: "\<not> locked (cells example_pushed
                       (toSend (rm_pem (rawMessagePayloadManager example_pushed_client))))"
    using example_pushed_fields(2) by (simp add: example_pushed_client_def example_client_def)
  from push_locks_account_only [OF m1, of example_env example_state example_pushed_client
         example_pushed] example_PairAccount
  have a: "ToSend (apm_pem (PayloadManager example_pushed_client)) example_pushed = []"
    by blast
  from push_locks_account_only [OF m2, of example_env example_pushed _ _ _ _ ?c2 example_synced]
    example_PairSyncDevice u
  have "common_Encrypt example_env (rawPayload example_synced)
          (aesKey (rm_pem (rawMessagePayloadManager example_pushed_client)))
          (rand_pos example_pushed) =
        Inr (ToSend (rm_pem (rawMessagePayloadManager ?c2)) example_synced)"
    by blast
  then have b: "ToSend (rm_pem (rawMessagePayloadManager example_pushed_client)) example_synced =
                  [9, 9, 7, 7]"
    by (simp add: example_synced_fields(1) example_env_def example_Encrypt_def
          example_pushed_client_def example_client_def)
  from m1 a b u example_PairAccount example_PairSyncDevice show ?thesis by simp
qed

section \<open>The two managers of a client\<close>

lemma NewPairingClient_separate:
  "NewPairingClient E cp config s0 = (Inr c, s) \<Longrightarrow> separate (c, s)"
  by (auto simp: NewPairingClient_def NewAccountPayloadManager_def NewRawMessagePayloadManager_def
        NewAccountPayloadRepository_def NewRawMessageRepository_def
        NewPayloadEncryptionManager_def new_EncryptionPayload_def separate_def Let_def
        split: sum.splits option.splits if_splits prod.splits)

lemma account_step_separate: "separate cs \<Longrightarrow> separate (account_step E x cs)"
proof (cases cs)
  case (Pair c s)
  assume sep: "separate cs"
  show ?thesis
  proof (cases x)
    case DoMount
    obtain r s' where m: "APM_Mount E (PayloadManager c) s = (r, s')" by force
    from APM_Mount_frame [OF m] sep Pair DoMount m show ?thesis
      by (simp add: separate_def Let_def)
  next
    case (DoReceive d)
    obtain r s' where m: "APM_Receive E (PayloadManager c) d s = (r, s')" by force
    from APM_Receive_frame [OF m] sep Pair DoReceive m show ?thesis
      by (simp add: separate_def Let_def)
  next
    case DoToSend
    with sep Pair show ?thesis by simp
  next
    case DoReceived
    with sep Pair show ?thesis by simp
  next
    case DoResetPayload
    with sep Pair show ?thesis
      by (auto simp: separate_def APM_ResetPayload_def ResetPayload_def new_EncryptionPayload_def
            Let_def split: prod.splits)
  next
    case (DoEncryptPlain p)
    with sep Pair show ?thesis by (simp add: separate_def EncryptPlain_def Let_def)
  next
    case DoLockPayload
    with sep Pair show ?thesis by (simp add: separate_def LockPayload_frame Let_def)
  qed
qed

lemma raw_step_separate: "separate cs \<Longrightarrow> separate (raw_step E x cs)"
proof (cases cs)
  case (Pair c s)
  assume sep: "separate cs"
  show ?thesis
  proof (cases x)
    case DoMount
    obtain r s' where m: "RMPM_Mount E (rawMessagePayloadManager c) s = (r, s')" by force
    from RMPM_Mount_frame [OF m] sep Pair DoMount m show ?thesis
      by (simp add: separate_def Let_def)
  next
    case (DoReceive d)
    obtain r s' where m: "RMPM_Receive E (rawMessagePayloadManager c) d s = (r, s')" by force
    from RMPM_Receive_frame [OF m] sep Pair DoReceive m show ?thesis
      by (simp add: separate_def Let_def)
  next
    case DoToSend
    with sep Pair show ?thesis by simp
  next
    case DoReceived
    with sep Pair show ?thesis by simp
  next
    case DoResetPayload
    with sep Pair show ?thesis
      by (auto simp: separate_def RMPM_ResetPayload_def ResetPayload_def new_EncryptionPayload_def
            Let_def split: prod.splits)
  next
    case (DoEncryptPlain p)
    with sep Pair show ?thesis by (simp add: separate_def EncryptPlain_def Let_def)
  next
    case DoLockPayload
    with sep Pair show ?thesis by (simp add: separate_def LockPayload_frame Let_def)
  qed
qed

lemma client_step_separate: "separate cs \<Longrightarrow> separate (client_step E x cs)"
proof (cases cs)
  case (Pair c s)
  assume sep: "separate cs"
  show ?thesis
  proof (cases x)
    case (OnAccount y)
    with sep show ?thesis by (simp add: account_step_separate)
  next
    case (OnRaw y)
    with sep show ?thesis by (simp add: raw_step_separate)
  next
    case DoPairAccount
    obtain r c' s' where m: "PairAccount E c s = (r, c', s')" by (cases "PairAccount E c s") auto
    from PairAccount_frame [OF m] sep Pair DoPairAccount m show ?thesis
      by (simp add: separate_def Let_def)
  next
    case DoPairSyncDevice
    obtain r c' s' where m: "PairSyncDevice E c s = (r, c', s')"
      by (cases "PairSyncDevice E c s") auto
    from PairSyncDevice_frame [OF m] sep Pair DoPairSyncDevice m show ?thesis
      by (simp add: separate_def Let_def)
  qed
qed

lemma client_run_separate: "separate cs \<Longrightarrow> separate (client_run E ops cs)"
  by (induction ops arbitrary: cs) (simp_all add: client_step_separate)

lemma separate_lock_account:
  assumes "separate (c, s)"
  shows "ToSend (rm_pem (rawMessagePayloadManager c)) (LockPayload (apm_pem (PayloadManager c)) s) =
           ToSend (rm_pem (rawMessagePayloadManager c)) s \<and>
         Received (rm_pem (rawMessagePayloadManager c)) (LockPayload (apm_pem (PayloadManager c)) s) =
           Received (rm_pem (rawMessagePayloadManager c)) s"
  using assms by (auto simp: separate_def Let_def ToSend_def Received_def LockPayload_def lock_def)

lemma separate_lock_raw:
  assumes "separate (c, s)"
  shows "ToSend (apm_pem (PayloadManager c)) (LockPayload (rm_pem (rawMessagePayloadManager c)) s) =
           ToSend (apm_pem (PayloadManager c)) s \<and>
         Received (apm_pem (PayloadManager c)) (LockPayload (rm_pem (rawMessagePayloadManager c)) s) =
           Received (apm_pem (PayloadManager c)) s"
  using assms by (auto simp: separate_def Let_def ToSend_def Received_def LockPayload_def lock_def)

lemma separate_PairAccount:
  assumes "separate (c, s)" and "PairAccount E c s = (r, c', s')"
  shows "ToSend (rm_pem (rawMessagePayloadManager c')) s' =
           ToSend (rm_pem (rawMessagePayloadManager c)) s \<and>
         Received (rm_pem (rawMessagePayloadManager c')) s' =
           Received (rm_pem (rawMessagePayloadManager c)) s"
  using assms(1) PairAccount_frame [OF assms(2)]
  by (simp add: separate_def Let_def ToSend_def Received_def)

text \<open>
  C9. In every state that a client built by \<open>NewPairingClient\<close> reaches through the
  methods of its two managers and its two protocol runs, \<open>LockPayload\<close> on the account
  manager leaves \<open>ToSend\<close> and \<open>Received\<close> of the raw-message manager unchanged, and
  \<open>LockPayload\<close> on the raw-message manager leaves those of the account manager
  unchanged. So does a whole \<open>PairAccount\<close>, which locks the account manager after a
  successful push, for the raw-message manager.
\<close>

theorem managers_hold_separate_slots:
  assumes "NewPairingClient E cp config s0 = (Inr c0, s1)"
    and "client_run E ops (c0, s1) = (c, s)"
  shows "ToSend (rm_pem (rawMessagePayloadManager c)) (LockPayload (apm_pem (PayloadManager c)) s) =
           ToSend (rm_pem (rawMessagePayloadManager c)) s \<and>
         Received (rm_pem (rawMessagePayloadManager c)) (LockPayload (apm_pem (PayloadManager c)) s) =
           Received (rm_pem (rawMessagePayloadManager c)) s \<and>
         ToSend (apm_pem (PayloadManager c)) (LockPayload (rm_pem (rawMessagePayloadManager c)) s) =
           ToSend (apm_pem (PayloadManager c)) s \<and>
         Received (apm_pem (PayloadManager c)) (LockPayload (rm_pem (rawMessagePayloadManager c)) s) =
           Received (apm_pem (PayloadManager c)) s \<and>
         ToSend (rm_pem (rawMessagePayloadManager (fst (snd (PairAccount E c s)))))
             (snd (snd (PairAccount E c s))) =
           ToSend (rm_pem (rawMessagePayloadManager c)) s \<and>
         Received (rm_pem (rawMessagePayloadManager (fst (snd (PairAccount E c s)))))
             (snd (snd (PairAccount E c s))) =
           Received (rm_pem (rawMessagePayloadManager c)) s"
proof -
  from NewPairingClient_separate [OF assms(1)] have "separate (client_run E ops (c0, s1))"
    by (rule client_run_separate)
  with assms(2) have sep: "separate (c, s)" by simp
  obtain r c' s' where p: "PairAccount E c s = (r, c', s')" by (cases "PairAccount E c s") auto
  from separate_lock_account [OF sep] separate_lock_raw [OF sep] separate_PairAccount [OF sep p] p
  show ?thesis by simp
qed

theorem managers_hold_separate_slots_witness:
  "NewPairingClient example_env example_params (Some example_config) empty_state =
     (Inr example_client, example_state) \<and>
   client_run example_env [DoPairAccount, DoPairSyncDevice] (example_client, example_state) =
     (example_pushed_client\<lparr>baseAddress_Path := Some pairingSyncDeviceReceive\<rparr>, example_synced) \<and>
   ToSend (rm_pem (rawMessagePayloadManager example_client)) example_synced = [9, 9, 7, 7] \<and>
   ToSend (rm_pem (rawMessagePayloadManager example_client))
     (LockPayload (apm_pem (PayloadManager example_client)) example_synced) = [9, 9, 7, 7]"
proof -
  let ?c = "example_pushed_client\<lparr>baseAddress_Path := Some pairingSyncDeviceReceive\<rparr>"
  have run: "client_run example_env [DoPairAccount, DoPairSyncDevice]
               (example_client, example_state) = (?c, example_synced)"
    by (simp add: example_PairAccount example_PairSyncDevice)
  have m: "rawMessagePayloadManager ?c = rawMessagePayloadManager example_client"
    "PayloadManager ?c = PayloadManager example_client"
    by (simp_all add: example_pushed_client_def)
  have t: "ToSend (rm_pem (rawMessagePayloadManager example_client)) example_synced =
             [9, 9, 7, 7]"
    by (rule example_synced_fields(2))
  from managers_hold_separate_slots [OF example_new_client run] m t run example_new_client
  show ?thesis by simp
qed

end
